theory Spec2Isabelle
  imports Complex_Main
begin

section \<open>Data model\<close>

text \<open>
  Instants (JavaScript \<open>Date\<close> values that passed the \<open>isNaN\<close> check) are milliseconds
  since the epoch; document identifiers (ObjectIds) are natural numbers.
\<close>

type_synonym instant = int
type_synonym object_id = nat

text \<open>The \<open>status\<close> enum of \<open>bookingSchema\<close>.\<close>

datatype booking_status = Pending | Confirmed | Active | Completed | Cancelled | No_show

text \<open>The \<open>payment_status\<close> enum of \<open>bookingSchema\<close>.\<close>

datatype payment_status = Pay_pending | Paid | Refunded | Partially_refunded | Pay_failed

text \<open>
  A stored booking: exactly the paths that \<open>bookingSchema\<close> declares (plus \<open>_id\<close> and
  the two timestamps). A property the schema does not declare is never part of this record.
\<close>

record booking =
  bid :: object_id
  booking_number :: string
  user_id :: object_id
  owner_id :: object_id
  space_id :: object_id
  vehicle_id :: object_id
  start_time :: instant
  end_time :: instant
  duration_hours :: rat
  base_price :: rat
  discount_amount :: rat
  total_amount :: rat
  currency :: string
  status :: booking_status
  payment_status :: payment_status
  check_in_time :: "instant option"
  check_out_time :: "instant option"
  cancellation_reason :: "string option"
  created_at :: instant
  updated_at :: instant

section \<open>Booking conflicts\<close>

text \<open>
  The query document that \<open>hasBookingConflict\<close> builds, as a predicate on one stored
  booking: the space, the \<open>$nin\<close> on the status, the \<open>$or\<close> of three range tests, and
  the \<open>$ne\<close> on \<open>_id\<close> when an id to exclude is given.
\<close>

definition conflictFilter ::
  "object_id \<Rightarrow> instant \<Rightarrow> instant \<Rightarrow> object_id option \<Rightarrow> booking \<Rightarrow> bool" where
  "conflictFilter spaceId startTime endTime excludeBookingId b \<longleftrightarrow>
     space_id b = spaceId \<and>
     status b \<notin> set [Cancelled, Completed, No_show] \<and>
     ((start_time b \<le> startTime \<and> end_time b > startTime) \<or>
      (start_time b < endTime \<and> end_time b \<ge> endTime) \<or>
      (start_time b \<ge> startTime \<and> end_time b \<le> endTime)) \<and>
     (case excludeBookingId of None \<Rightarrow> True | Some x \<Rightarrow> bid b \<noteq> x)"

text \<open>\<open>Booking.findOne(filter)\<close> over the collection, in storage order.\<close>

definition hasBookingConflict ::
  "booking list \<Rightarrow> object_id \<Rightarrow> instant \<Rightarrow> instant \<Rightarrow> object_id option \<Rightarrow> booking option" where
  "hasBookingConflict bs spaceId startTime endTime excludeBookingId =
     find (conflictFilter spaceId startTime endTime excludeBookingId) bs"

text \<open>The half-open overlap rule of the specification, on a candidate and a stored booking.\<close>

definition overlaps :: "instant \<Rightarrow> instant \<Rightarrow> booking \<Rightarrow> bool" where
  "overlaps S E b \<longleftrightarrow> start_time b < E \<and> end_time b > S"

definition is_active_status :: "booking_status \<Rightarrow> bool" where
  "is_active_status st \<longleftrightarrow> st \<noteq> Cancelled \<and> st \<noteq> Completed \<and> st \<noteq> No_show"

section \<open>JavaScript numbers and dates\<close>

text \<open>
  A JavaScript number is modelled as an exact rational (rounding of doubles is not
  modelled), with \<open>NaN\<close> and \<open>undefined\<close> made explicit because the controllers read
  properties that no schema declares. Infinities do not arise: the only divisors are the
  literals \<open>100\<close>, \<open>24\<close>, \<open>24 * 30\<close> and \<open>1000 * 60 * 60\<close>.
\<close>

datatype jsnum = Undefined | NaN | JNum rat

fun js_truthy :: "jsnum \<Rightarrow> bool" where
  "js_truthy (JNum r) = (r \<noteq> 0)"
| "js_truthy _ = False"

fun js_plus :: "jsnum \<Rightarrow> jsnum \<Rightarrow> jsnum" where
  "js_plus (JNum a) (JNum b) = JNum (a + b)"
| "js_plus _ _ = NaN"

fun js_minus :: "jsnum \<Rightarrow> jsnum \<Rightarrow> jsnum" where
  "js_minus (JNum a) (JNum b) = JNum (a - b)"
| "js_minus _ _ = NaN"

fun js_times :: "jsnum \<Rightarrow> jsnum \<Rightarrow> jsnum" where
  "js_times (JNum a) (JNum b) = JNum (a * b)"
| "js_times _ _ = NaN"

text \<open>Division by a non-zero literal.\<close>

fun js_div :: "jsnum \<Rightarrow> rat \<Rightarrow> jsnum" where
  "js_div (JNum a) c = JNum (a / c)"
| "js_div _ c = NaN"

text \<open>Comparisons with \<open>NaN\<close> or \<open>undefined\<close> on either side are false.\<close>

fun js_ge :: "jsnum \<Rightarrow> jsnum \<Rightarrow> bool" where
  "js_ge (JNum a) (JNum b) = (a \<ge> b)"
| "js_ge _ _ = False"

fun js_lt :: "jsnum \<Rightarrow> jsnum \<Rightarrow> bool" where
  "js_lt (JNum a) (JNum b) = (a < b)"
| "js_lt _ _ = False"

fun js_gt :: "jsnum \<Rightarrow> jsnum \<Rightarrow> bool" where
  "js_gt (JNum a) (JNum b) = (a > b)"
| "js_gt _ _ = False"

text \<open>\<open>Math.min\<close> and \<open>Math.max\<close>: \<open>NaN\<close> as soon as one argument is not a number.\<close>

fun Math_min :: "jsnum \<Rightarrow> jsnum \<Rightarrow> jsnum" where
  "Math_min (JNum a) (JNum b) = JNum (min a b)"
| "Math_min _ _ = NaN"

fun Math_max :: "jsnum \<Rightarrow> jsnum \<Rightarrow> jsnum" where
  "Math_max (JNum a) (JNum b) = JNum (max a b)"
| "Math_max _ _ = NaN"

text \<open>\<open>new Date(x)\<close>: either an instant or the invalid date, whose \<open>getTime()\<close> is \<open>NaN\<close>.\<close>

datatype js_date = Invalid_Date | Date instant

text \<open>Milliseconds to hours: division by \<open>1000 * 60 * 60\<close>.\<close>

definition ms_to_hours :: "int \<Rightarrow> rat" where
  "ms_to_hours ms = of_int ms / (1000 * 60 * 60)"

section \<open>The other collections\<close>

datatype space_status = Space_active | Space_inactive | Space_maintenance | Space_unavailable

text \<open>
  The part of \<open>parkingSpaceSchema\<close> that the bookings controller reads: the owner, the
  status and the rate card (\<open>hourly_rate\<close>, \<open>daily_rate\<close>, \<open>monthly_rate\<close>), taken as
  populated.
\<close>

record parking_space =
  ps_id :: object_id
  ps_owner_id :: object_id
  hourly_rate :: rat
  daily_rate :: rat
  monthly_rate :: rat
  ps_status :: space_status

record user_vehicle =
  vid :: object_id
  v_user_id :: object_id
  is_verified :: bool

record owner =
  oid :: object_id
  o_user_id :: object_id

datatype role = Role_user | Role_owner | Role_admin

text \<open>The authenticated principal, \<open>req.user\<close>.\<close>

record user =
  uid :: object_id
  user_type :: role

datatype promo_kind = Percentage | Fixed_amount | Free_hours

text \<open>A stored promo code: exactly the paths of \<open>promoCodeSchema\<close>.\<close>

record promo_code =
  pid :: object_id
  code :: string
  promo_type :: promo_kind
  discount_value :: rat
  max_discount_amount :: "rat option"
  valid_from :: instant
  valid_to :: instant
  usage_limit_total :: "rat option"
  usage_count :: rat
  is_active :: bool

text \<open>
  The promo document as \<open>createBooking\<close> holds it in memory: the stored paths, and the four
  properties that the controller reads or writes although \<open>promoCodeSchema\<close> does not
  declare them. A document loaded from the collection has them \<open>undefined\<close>.
\<close>

record promo_doc =
  pfields :: promo_code
  max_uses :: jsnum
  used_count :: jsnum
  min_booking_amount :: jsnum
  discount_type :: "string option"

definition hydrate_promo :: "promo_code \<Rightarrow> promo_doc" where
  "hydrate_promo p =
     \<lparr>pfields = p, max_uses = Undefined, used_count = Undefined,
      min_booking_amount = Undefined, discount_type = None\<rparr>"

text \<open>One entry of the \<open>extensions\<close> array that \<open>extendBooking\<close> builds.\<close>

record extension =
  old_end_time :: instant
  new_end_time :: instant
  extension_price :: rat
  extended_at :: instant

text \<open>
  The booking document as a controller holds it in memory: the stored paths (\<open>stored\<close>), and
  the properties that the controllers read or assign although \<open>bookingSchema\<close> does not
  declare them. The schema is strict (no \<open>strict: false\<close> anywhere), so a document loaded
  from the collection has them \<open>undefined\<close>, and \<open>save()\<close> writes the stored paths only.
\<close>

record booking_doc =
  stored :: booking
  total_price :: jsnum
  final_price :: jsnum
  overtime_charge :: jsnum
  refund_amount :: jsnum
  cancelled_at :: "instant option"
  actual_start_time :: "instant option"
  actual_end_time :: "instant option"
  verification_code :: "string option"
  extensions :: "extension list option"

definition hydrate :: "booking \<Rightarrow> booking_doc" where
  "hydrate b =
     \<lparr>stored = b, total_price = Undefined, final_price = Undefined,
      overtime_charge = Undefined, refund_amount = Undefined, cancelled_at = None,
      actual_start_time = None, actual_end_time = None, verification_code = None,
      extensions = None\<rparr>"

section \<open>Availability windows\<close>

text \<open>A stored availability window: the paths of \<open>spaceAvailabilitySchema\<close>.\<close>

record availability =
  aid :: object_id
  av_space_id :: object_id
  day_of_week :: int
  available_from :: string
  available_to :: string
  is_available :: bool

section \<open>The database and the error envelope\<close>

record db =
  bookings :: "booking list"
  parkingSpaces :: "parking_space list"
  userVehicles :: "user_vehicle list"
  promoCodes :: "promo_code list"
  owners :: "owner list"
  availabilities :: "availability list"

datatype error_code =
  REQ_VALIDATION | BIZ_VALIDATION | NOT_FOUND | BIZ_UNAVAILABLE | AUTH_FORBIDDEN
  | BIZ_CONFLICT | BIZ_OPERATION_NOT_ALLOWED | SERVER_ERROR

text \<open>\<open>error(res, code, http, message)\<close>.\<close>

datatype api_error = ApiError error_code nat string

definition findById :: "booking list \<Rightarrow> object_id \<Rightarrow> booking option" where
  "findById bs i = find (\<lambda>b. bid b = i) bs"

text \<open>
  \<open>booking.save()\<close>: the stored paths of the document replace the stored booking of the same
  id; the \<open>updatedAt\<close> timestamp is refreshed (with the request's clock reading).
\<close>

definition save :: "db \<Rightarrow> instant \<Rightarrow> booking_doc \<Rightarrow> db" where
  "save d now doc =
     d\<lparr>bookings := map (\<lambda>b. if bid b = bid (stored doc) then (stored doc)\<lparr>updated_at := now\<rparr> else b)
                        (bookings d)\<rparr>"

text \<open>\<open>promo.save()\<close>: likewise, the stored paths only.\<close>

definition save_promo :: "db \<Rightarrow> promo_doc \<Rightarrow> db" where
  "save_promo d doc =
     d\<lparr>promoCodes := map (\<lambda>p. if pid p = pid (pfields doc) then pfields doc else p)
                          (promoCodes d)\<rparr>"

text \<open>\<open>.populate('owner_id', 'user_id')\<close> followed by the null-safe read of \<open>user_id\<close>.\<close>

definition ownerUserId :: "db \<Rightarrow> booking \<Rightarrow> object_id option" where
  "ownerUserId d b = map_option o_user_id (find (\<lambda>w. oid w = owner_id b) (owners d))"

section \<open>Pricing\<close>

definition calculateBookingPrice :: "parking_space \<Rightarrow> rat \<Rightarrow> rat" where
  "calculateBookingPrice parkingSpace durationHours =
     (if durationHours \<le> 24 then hourly_rate parkingSpace * durationHours
      else if durationHours \<le> 24 * 30
        then (let days = \<lceil>durationHours / 24\<rceil> in daily_rate parkingSpace * of_int days)
      else (let months = \<lceil>durationHours / (24 * 30)\<rceil> in monthly_rate parkingSpace * of_int months))"

section \<open>Creating a booking\<close>

text \<open>
  The request body of \<open>createBooking\<close>. \<open>None\<close> is a field that is missing or falsy;
  the two times carry the result of \<open>new Date(...)\<close>.
\<close>

record create_body =
  cb_space_id :: "object_id option"
  cb_vehicle_id :: "object_id option"
  cb_start_time :: "js_date option"
  cb_end_time :: "js_date option"
  cb_promo_code :: "string option"

text \<open>
  The block "Apply promo code if provided" of \<open>createBooking\<close>. It returns
  \<open>discountAmount\<close>, \<open>finalPrice\<close> and the database after \<open>promo.save()\<close>. The properties
  \<open>max_uses\<close>, \<open>used_count\<close>, \<open>min_booking_amount\<close> and \<open>discount_type\<close> are read from the
  document as the source reads them; \<open>discount_value\<close> and \<open>max_discount_amount\<close> are
  stored paths. (The message of the minimum-amount error interpolates the amount in the
  source; the interpolation is left out.)
\<close>

definition applyPromo ::
  "db \<Rightarrow> instant \<Rightarrow> rat \<Rightarrow> string option \<Rightarrow> api_error + (jsnum \<times> jsnum \<times> db)" where
  "applyPromo d now totalPrice promo_code =
     (if promo_code = None \<or> promo_code = Some [] then Inr (JNum 0, JNum totalPrice, d)
      else
        case find (\<lambda>p. Some (code p) = promo_code \<and> is_active p \<and>
                        valid_from p \<le> now \<and> valid_to p \<ge> now) (promoCodes d) of
          None \<Rightarrow> Inl (ApiError BIZ_VALIDATION 400 ''Invalid or expired promo code'')
        | Some p \<Rightarrow>
            let promo = hydrate_promo p in
            if js_truthy (max_uses promo) \<and> js_ge (used_count promo) (max_uses promo)
            then Inl (ApiError BIZ_VALIDATION 400 ''Promo code has reached maximum usage limit'')
            else if js_truthy (min_booking_amount promo) \<and>
                    js_lt (JNum totalPrice) (min_booking_amount promo)
            then Inl (ApiError BIZ_VALIDATION 400 ''Minimum booking amount required for this promo code'')
            else
              let discountAmount =
                    (if discount_type promo = Some ''percentage'' then
                       (let da = js_div (js_times (JNum totalPrice)
                                           (JNum (discount_value (pfields promo)))) 100
                        in case max_discount_amount (pfields promo) of
                             None \<Rightarrow> da
                           | Some m \<Rightarrow> if m \<noteq> 0 then Math_min da (JNum m) else da)
                     else if discount_type promo = Some ''fixed''
                       then JNum (discount_value (pfields promo))
                     else JNum 0);
                  finalPrice = Math_max (JNum 0) (js_minus (JNum totalPrice) discountAmount);
                  promo' = promo\<lparr>used_count := js_plus (used_count promo) (JNum 1)\<rparr>
              in Inr (discountAmount, finalPrice, save_promo d promo'))"

text \<open>
  \<open>Booking.create\<close>: the document is validated against \<open>bookingSchema\<close> (the four \<open>min: 0\<close>
  numbers, the unique booking number) and appended; \<open>None\<close> is the thrown error.
\<close>

definition Booking_create :: "db \<Rightarrow> booking \<Rightarrow> db option" where
  "Booking_create d b =
     (if duration_hours b < 0 \<or> base_price b < 0 \<or> discount_amount b < 0 \<or> total_amount b < 0
         \<or> booking_number b \<in> set (map booking_number (bookings d))
      then None
      else Some (d\<lparr>bookings := bookings d @ [b]\<rparr>))"

text \<open>
  \<open>createBooking\<close>. Besides the request, the model takes the clock reading \<open>now\<close>, the
  fresh \<open>_id\<close> and the generated booking number. A thrown error (a property read on a
  \<open>null\<close> owner, a number that is \<open>NaN\<close>, a failed validation) reaches the \<open>catch\<close> and
  gives the 500 response.
\<close>

definition createBooking ::
  "db \<Rightarrow> user \<Rightarrow> instant \<Rightarrow> object_id \<Rightarrow> string \<Rightarrow> create_body
     \<Rightarrow> (api_error + booking option) \<times> db" where
  "createBooking d reqUser now newId bookingNumber body =
     (case (cb_space_id body, cb_vehicle_id body, cb_start_time body, cb_end_time body) of
        (Some spaceId, Some vehicleId, Some st, Some en) \<Rightarrow>
          (case (st, en) of
             (Date startDate, Date endDate) \<Rightarrow>
               if startDate < now
               then (Inl (ApiError BIZ_VALIDATION 400 ''Start time cannot be in the past''), d)
               else if endDate \<le> startDate
               then (Inl (ApiError BIZ_VALIDATION 400 ''End time must be after start time''), d)
               else
                 (case find (\<lambda>s. ps_id s = spaceId) (parkingSpaces d) of
                    None \<Rightarrow> (Inl (ApiError NOT_FOUND 404 ''Parking space not found''), d)
                  | Some parkingSpace \<Rightarrow>
                      if ps_status parkingSpace \<noteq> Space_active
                      then (Inl (ApiError BIZ_UNAVAILABLE 400 ''Parking space is not available''), d)
                      else
                        (case find (\<lambda>v. vid v = vehicleId) (userVehicles d) of
                           None \<Rightarrow> (Inl (ApiError NOT_FOUND 404 ''Vehicle not found''), d)
                         | Some vehicle \<Rightarrow>
                             if v_user_id vehicle \<noteq> uid reqUser
                             then (Inl (ApiError AUTH_FORBIDDEN 403 ''Vehicle does not belong to you''), d)
                             else if \<not> is_verified vehicle
                             then (Inl (ApiError BIZ_VALIDATION 400
                                          ''Vehicle must be verified before booking''), d)
                             else if hasBookingConflict (bookings d) spaceId startDate endDate None \<noteq> None
                             then (Inl (ApiError BIZ_CONFLICT 409
                                          ''Parking space is already booked for this time period''), d)
                             else
                               let durationMs = endDate - startDate;
                                   durationHours = ms_to_hours durationMs;
                                   totalPrice = calculateBookingPrice parkingSpace durationHours
                               in
                               (case applyPromo d now totalPrice (cb_promo_code body) of
                                  Inl e \<Rightarrow> (Inl e, d)
                                | Inr (discountAmount, finalPrice, d1) \<Rightarrow>
                                    (case (find (\<lambda>w. oid w = ps_owner_id parkingSpace) (owners d1),
                                           discountAmount, finalPrice) of
                                       (Some ownr, JNum da, JNum fp) \<Rightarrow>
                                         (case Booking_create d1
                                            \<lparr>bid = newId, booking_number = bookingNumber,
                                             user_id = uid reqUser, owner_id = oid ownr,
                                             space_id = spaceId, vehicle_id = vehicleId,
                                             start_time = startDate, end_time = endDate,
                                             duration_hours = durationHours, base_price = totalPrice,
                                             discount_amount = da, total_amount = fp,
                                             currency = ''USD'', status = Pending,
                                             payment_status = Pay_pending, check_in_time = None,
                                             check_out_time = None, cancellation_reason = None,
                                             created_at = now, updated_at = now\<rparr> of
                                            None \<Rightarrow> (Inl (ApiError SERVER_ERROR 500 ''Error creating booking''), d1)
                                          | Some d2 \<Rightarrow> (Inr (findById (bookings d2) newId), d2))
                                     | _ \<Rightarrow> (Inl (ApiError SERVER_ERROR 500 ''Error creating booking''), d1)))))
           | _ \<Rightarrow> (Inl (ApiError REQ_VALIDATION 400 ''Invalid date format''), d))
      | _ \<Rightarrow> (Inl (ApiError REQ_VALIDATION 400 ''Missing required fields''), d))"

section \<open>Validating a promo code\<close>

definition upper_char :: "char \<Rightarrow> char" where
  "upper_char c =
     (let n = (of_char c :: nat) in if 97 \<le> n \<and> n \<le> 122 then char_of (n - 32) else c)"

definition toUpperCase :: "string \<Rightarrow> string" where
  "toUpperCase s = map upper_char s"

text \<open>
  \<open>validatePromoCode\<close> of the promo-codes controller, up to the \<open>discount_amount\<close> it
  answers. It reads the stored paths \<open>promo_type\<close>, \<open>usage_limit_total\<close> and \<open>usage_count\<close>.
\<close>

definition validatePromoCode ::
  "db \<Rightarrow> instant \<Rightarrow> string option \<Rightarrow> rat \<Rightarrow> api_error + (promo_code \<times> rat)" where
  "validatePromoCode d now code_in booking_amount =
     (case code_in of
        None \<Rightarrow> Inl (ApiError REQ_VALIDATION 400 ''Promo code is required'')
      | Some c \<Rightarrow>
          if c = [] then Inl (ApiError REQ_VALIDATION 400 ''Promo code is required'')
          else
            case find (\<lambda>p. code p = toUpperCase c) (promoCodes d) of
              None \<Rightarrow> Inl (ApiError NOT_FOUND 404 ''Invalid promo code'')
            | Some promoCode \<Rightarrow>
                if \<not> is_active promoCode
                then Inl (ApiError BIZ_CONFLICT 400 ''Promo code is no longer active'')
                else if now < valid_from promoCode
                then Inl (ApiError BIZ_CONFLICT 400 ''Promo code is not yet valid'')
                else if now > valid_to promoCode
                then Inl (ApiError BIZ_CONFLICT 400 ''Promo code has expired'')
                else if (case usage_limit_total promoCode of
                           None \<Rightarrow> False
                         | Some cap \<Rightarrow> cap \<noteq> 0 \<and> usage_count promoCode \<ge> cap)
                then Inl (ApiError BIZ_CONFLICT 400 ''Promo code usage limit reached'')
                else
                  let discountAmount =
                        (case promo_type promoCode of
                           Percentage \<Rightarrow>
                             (let da = (booking_amount * discount_value promoCode) / 100
                              in case max_discount_amount promoCode of
                                   None \<Rightarrow> da
                                 | Some m \<Rightarrow> if m \<noteq> 0 \<and> da > m then m else da)
                         | Fixed_amount \<Rightarrow>
                             (let da = discount_value promoCode
                              in if da > booking_amount then booking_amount else da)
                         | Free_hours \<Rightarrow> discount_value promoCode)
                  in Inr (promoCode, discountAmount))"

section \<open>Updating a booking\<close>

record update_booking_body =
  bb_start_time :: "js_date option"
  bb_end_time :: "js_date option"
  bb_vehicle_id :: "object_id option"

text \<open>
  The vehicle part of \<open>updateBooking\<close>: when another vehicle is given, it must exist, belong
  to the requester and be verified.
\<close>

definition updateVehicle ::
  "db \<Rightarrow> user \<Rightarrow> object_id option \<Rightarrow> booking_doc \<Rightarrow> api_error + booking_doc" where
  "updateVehicle d reqUser vehicle booking =
     (case vehicle of
        None \<Rightarrow> Inr booking
      | Some vehicleId \<Rightarrow>
          if vehicleId = vehicle_id (stored booking) then Inr booking
          else
            case find (\<lambda>v. vid v = vehicleId) (userVehicles d) of
              None \<Rightarrow> Inl (ApiError NOT_FOUND 404 ''Vehicle not found'')
            | Some vehicle \<Rightarrow>
                if v_user_id vehicle \<noteq> uid reqUser
                then Inl (ApiError AUTH_FORBIDDEN 403 ''Vehicle does not belong to you'')
                else if \<not> is_verified vehicle
                then Inl (ApiError BIZ_VALIDATION 400 ''Vehicle must be verified'')
                else Inr (booking\<lparr>stored := (stored booking)\<lparr>vehicle_id := vehicleId\<rparr>\<rparr>))"

text \<open>
  \<open>updateBooking\<close>. New times are checked like those of a new booking, with the booking
  itself excluded from the conflict scan. The new price goes to \<open>total_price\<close> and
  \<open>final_price\<close>, which \<open>bookingSchema\<close> does not declare.
\<close>

definition updateBooking ::
  "db \<Rightarrow> user \<Rightarrow> instant \<Rightarrow> object_id \<Rightarrow> update_booking_body
     \<Rightarrow> (api_error + booking option) \<times> db" where
  "updateBooking d reqUser now i body =
     (case findById (bookings d) i of
        None \<Rightarrow> (Inl (ApiError NOT_FOUND 404 ''Booking not found''), d)
      | Some b \<Rightarrow>
          if user_id b \<noteq> uid reqUser \<and> user_type reqUser \<noteq> Role_admin
          then (Inl (ApiError AUTH_FORBIDDEN 403 ''Not authorized to update this booking''), d)
          else if status b \<notin> set [Pending, Confirmed]
          then (Inl (ApiError BIZ_OPERATION_NOT_ALLOWED 400 ''Cannot update booking in current status''), d)
          else
            case updateVehicle d reqUser (bb_vehicle_id body) (hydrate b) of
              Inl e \<Rightarrow> (Inl e, d)
            | Inr booking \<Rightarrow>
                if bb_start_time body = None \<and> bb_end_time body = None
                then (let d' = save d now booking in (Inr (findById (bookings d') i), d'))
                else
                  let newStart = (case bb_start_time body of None \<Rightarrow> Date (start_time b) | Some x \<Rightarrow> x);
                      newEnd = (case bb_end_time body of None \<Rightarrow> Date (end_time b) | Some x \<Rightarrow> x)
                  in
                  (case (newStart, newEnd) of
                     (Date newStartTime, Date newEndTime) \<Rightarrow>
                       if newStartTime < now
                       then (Inl (ApiError BIZ_VALIDATION 400 ''Start time cannot be in the past''), d)
                       else if newEndTime \<le> newStartTime
                       then (Inl (ApiError BIZ_VALIDATION 400 ''End time must be after start time''), d)
                       else
                         (case find (\<lambda>s. ps_id s = space_id b) (parkingSpaces d) of
                            None \<Rightarrow> (Inl (ApiError SERVER_ERROR 500 ''Error updating booking''), d)
                          | Some parkingSpace \<Rightarrow>
                              if hasBookingConflict (bookings d) (ps_id parkingSpace) newStartTime
                                   newEndTime (Some (bid b)) \<noteq> None
                              then (Inl (ApiError BIZ_CONFLICT 409
                                           ''Parking space is already booked for this time period''), d)
                              else
                                let durationMs = newEndTime - newStartTime;
                                    durationHours = ms_to_hours durationMs;
                                    newTotalPrice = calculateBookingPrice parkingSpace durationHours;
                                    booking' = booking\<lparr>stored := (stored booking)\<lparr>start_time := newStartTime,
                                                                      end_time := newEndTime\<rparr>,
                                       total_price := JNum newTotalPrice,
                                       final_price := JNum (newTotalPrice - discount_amount b)\<rparr>;
                                    d' = save d now booking'
                                in (Inr (findById (bookings d') i), d'))
                   | _ \<Rightarrow> (Inl (ApiError REQ_VALIDATION 400 ''Invalid date format''), d)))"

section \<open>Cancelling a booking\<close>

text \<open>The enum strings of \<open>payment_status\<close>, for the comparison that \<open>cancelBooking\<close> makes.\<close>

fun payment_status_string :: "payment_status \<Rightarrow> string" where
  "payment_status_string Pay_pending = ''pending''"
| "payment_status_string Paid = ''paid''"
| "payment_status_string Refunded = ''refunded''"
| "payment_status_string Partially_refunded = ''partially_refunded''"
| "payment_status_string Pay_failed = ''failed''"

text \<open>The \<open>refund\<close> block of the response, next to the booking read back after the save.\<close>

record cancel_response =
  cr_booking :: "booking option"
  cr_amount :: jsnum
  cr_percentage :: rat
  cr_status :: string

text \<open>
  The refund percentage that \<open>cancelBooking\<close> computes from the clock and the start time.
\<close>

definition refundPercentage :: "instant \<Rightarrow> instant \<Rightarrow> rat" where
  "refundPercentage now start =
     (let hasStarted = (now \<ge> start) in
      if \<not> hasStarted then
        (let hoursUntilStart = ms_to_hours (start - now) in
         if hoursUntilStart > 48 then 100
         else if hoursUntilStart > 24 then 50
         else 0)
      else 0)"

text \<open>
  \<open>cancelBooking\<close>. The refund amount multiplies \<open>booking.final_price\<close>, a property that
  \<open>bookingSchema\<close> does not declare. \<open>Refund.create\<close> is called with a document that
  lacks the required paths of \<open>refundSchema\<close>, so it would throw; that branch needs
  \<open>payment_status === 'completed'\<close>.
\<close>

definition cancelBooking ::
  "db \<Rightarrow> user \<Rightarrow> instant \<Rightarrow> object_id \<Rightarrow> string option
     \<Rightarrow> (api_error + cancel_response) \<times> db" where
  "cancelBooking d reqUser now i reason =
     (case findById (bookings d) i of
        None \<Rightarrow> (Inl (ApiError NOT_FOUND 404 ''Booking not found''), d)
      | Some b \<Rightarrow>
          let booking = hydrate b in
          if user_id b \<noteq> uid reqUser \<and> user_type reqUser \<noteq> Role_admin \<and> owner_id b \<noteq> uid reqUser
          then (Inl (ApiError AUTH_FORBIDDEN 403 ''Not authorized to cancel this booking''), d)
          else if status b \<in> set [Cancelled, Completed, No_show]
          then (Inl (ApiError BIZ_OPERATION_NOT_ALLOWED 400 ''Cannot cancel booking in current status''), d)
          else
            let hasStarted = (now \<ge> start_time b);
                pct = refundPercentage now (start_time b);
                refundAmount =
                  (if \<not> hasStarted then js_div (js_times (final_price booking) (JNum pct)) 100
                   else JNum 0);
                text = (case reason of None \<Rightarrow> ''User cancelled''
                        | Some r \<Rightarrow> if r = [] then ''User cancelled'' else r);
                booking' = booking\<lparr>stored := (stored booking)\<lparr>status := Cancelled,
                                                   cancellation_reason := Some text\<rparr>,
                                    cancelled_at := Some now, refund_amount := refundAmount\<rparr>
            in
            if payment_status_string (payment_status b) = ''completed'' \<and> js_gt refundAmount (JNum 0)
            then (Inl (ApiError SERVER_ERROR 500 ''Error cancelling booking''), d)
            else
              let d' = save d now booking' in
              (Inr \<lparr>cr_booking = findById (bookings d') i, cr_amount = refundAmount,
                    cr_percentage = pct,
                    cr_status = (if js_gt refundAmount (JNum 0) then ''pending'' else ''not_applicable'')\<rparr>,
               d'))"

section \<open>Check-in and check-out\<close>

text \<open>
  \<open>checkIn\<close>. The verification code of the request is \<open>None\<close> when absent;
  \<open>booking.verification_code\<close> and \<open>booking.actual_start_time\<close> are not paths of
  \<open>bookingSchema\<close> (which declares \<open>check_in_time\<close>).
\<close>

definition checkIn ::
  "db \<Rightarrow> user \<Rightarrow> instant \<Rightarrow> object_id \<Rightarrow> string option
     \<Rightarrow> (api_error + booking option) \<times> db" where
  "checkIn d reqUser now i verification =
     (case findById (bookings d) i of
        None \<Rightarrow> (Inl (ApiError NOT_FOUND 404 ''Booking not found''), d)
      | Some b \<Rightarrow>
          let booking = hydrate b in
          if user_type reqUser \<noteq> Role_admin \<and> ownerUserId d b \<noteq> Some (uid reqUser)
          then (Inl (ApiError AUTH_FORBIDDEN 403 ''Not authorized to check in this booking''), d)
          else if status b \<noteq> Confirmed
          then (Inl (ApiError BIZ_OPERATION_NOT_ALLOWED 400 ''Only confirmed bookings can be checked in''), d)
          else
            let earlyCheckIn = start_time b - (60 * 60 * 1000);
                lateCheckIn = start_time b + (60 * 60 * 1000)
            in
            if now < earlyCheckIn
            then (Inl (ApiError BIZ_OPERATION_NOT_ALLOWED 400 ''Check-in window has not opened yet''), d)
            else if now > lateCheckIn
            then (Inl (ApiError BIZ_OPERATION_NOT_ALLOWED 400
                         ''Check-in window has passed. Booking marked as no-show''),
                  save d now (booking\<lparr>stored := (stored booking)\<lparr>status := No_show\<rparr>\<rparr>))
            else if (case (verification, verification_code booking) of
                       (Some given, Some expected) \<Rightarrow> given \<noteq> [] \<and> expected \<noteq> [] \<and> given \<noteq> expected
                     | _ \<Rightarrow> False)
            then (Inl (ApiError BIZ_VALIDATION 400 ''Invalid verification code''), d)
            else
              let booking' = booking\<lparr>stored := (stored booking)\<lparr>status := Active\<rparr>,
                                      actual_start_time := Some now\<rparr>;
                  d' = save d now booking'
              in (Inr (findById (bookings d') i), d'))"

text \<open>The response of \<open>checkOut\<close>: the booking read back, and the \<open>overtime\<close> block.\<close>

record checkout_response =
  co_booking :: "booking option"
  co_overtime :: "rat option"

text \<open>
  The overtime charge of \<open>checkOut\<close>: \<open>Math.ceil\<close> of the overtime in hours, times the
  hourly rate of the space, times 1.5; zero when the space is not found or the booking is
  not over.
\<close>

definition overtimeCharge :: "db \<Rightarrow> instant \<Rightarrow> booking \<Rightarrow> rat" where
  "overtimeCharge d now b =
     (if now > end_time b then
        (let overtimeMs = now - end_time b;
             overtimeHours = \<lceil>ms_to_hours overtimeMs\<rceil>
         in case find (\<lambda>s. ps_id s = space_id b) (parkingSpaces d) of
              None \<Rightarrow> 0
            | Some parkingSpace \<Rightarrow> of_int overtimeHours * hourly_rate parkingSpace * (3 / 2))
      else 0)"

text \<open>
  \<open>checkOut\<close>. The charge is assigned to \<open>booking.overtime_charge\<close> and added to
  \<open>booking.final_price\<close>; \<open>actual_end_time\<close> is assigned too. None of the three is a path
  of \<open>bookingSchema\<close>.
\<close>

definition checkOut ::
  "db \<Rightarrow> user \<Rightarrow> instant \<Rightarrow> object_id \<Rightarrow> (api_error + checkout_response) \<times> db" where
  "checkOut d reqUser now i =
     (case findById (bookings d) i of
        None \<Rightarrow> (Inl (ApiError NOT_FOUND 404 ''Booking not found''), d)
      | Some b \<Rightarrow>
          let booking = hydrate b in
          if user_type reqUser \<noteq> Role_admin \<and> ownerUserId d b \<noteq> Some (uid reqUser)
          then (Inl (ApiError AUTH_FORBIDDEN 403 ''Not authorized to check out this booking''), d)
          else if status b \<noteq> Active
          then (Inl (ApiError BIZ_OPERATION_NOT_ALLOWED 400 ''Only active bookings can be checked out''), d)
          else
            let charge = overtimeCharge d now b;
                booking1 = booking\<lparr>stored := (stored booking)\<lparr>status := Completed\<rparr>,
                                    actual_end_time := Some now\<rparr>;
                booking2 = (if charge > 0
                            then booking1\<lparr>overtime_charge := JNum charge,
                                          final_price := js_plus (final_price booking1) (JNum charge)\<rparr>
                            else booking1);
                d' = save d now booking2
            in (Inr \<lparr>co_booking = findById (bookings d') i,
                      co_overtime = (if charge > 0 then Some charge else None)\<rparr>, d'))"

section \<open>Extending a booking\<close>

record extend_response =
  er_booking :: "booking option"
  er_old_end_time :: instant
  er_new_end_time :: instant
  er_additional_charge :: rat

text \<open>
  \<open>extendBooking\<close>. The space is the populated \<open>booking.space_id\<close>; reading \<open>_id\<close> of a
  space that no longer exists throws. The extension price is added to
  \<open>booking.total_price\<close> and \<open>booking.final_price\<close> and pushed on \<open>booking.extensions\<close>;
  none of the three is a path of \<open>bookingSchema\<close>.
\<close>

definition extendBooking ::
  "db \<Rightarrow> user \<Rightarrow> instant \<Rightarrow> object_id \<Rightarrow> js_date option
     \<Rightarrow> (api_error + extend_response) \<times> db" where
  "extendBooking d reqUser now i new_end =
     (case new_end of
        None \<Rightarrow> (Inl (ApiError REQ_VALIDATION 400 ''New end time is required''), d)
      | Some nd \<Rightarrow>
         (case findById (bookings d) i of
            None \<Rightarrow> (Inl (ApiError NOT_FOUND 404 ''Booking not found''), d)
          | Some b \<Rightarrow>
              let booking = hydrate b in
              if user_id b \<noteq> uid reqUser \<and> user_type reqUser \<noteq> Role_admin
              then (Inl (ApiError AUTH_FORBIDDEN 403 ''Not authorized to extend this booking''), d)
              else if status b \<notin> set [Confirmed, Active]
              then (Inl (ApiError BIZ_OPERATION_NOT_ALLOWED 400
                           ''Can only extend confirmed or active bookings''), d)
              else
                (case nd of
                   Invalid_Date \<Rightarrow> (Inl (ApiError REQ_VALIDATION 400 ''Invalid date format''), d)
                 | Date newEndDate \<Rightarrow>
                     if newEndDate \<le> end_time b
                     then (Inl (ApiError BIZ_VALIDATION 400
                                  ''New end time must be after current end time''), d)
                     else if newEndDate \<le> now
                     then (Inl (ApiError BIZ_VALIDATION 400 ''New end time must be in the future''), d)
                     else
                       (case find (\<lambda>s. ps_id s = space_id b) (parkingSpaces d) of
                          None \<Rightarrow> (Inl (ApiError SERVER_ERROR 500 ''Error extending booking''), d)
                        | Some parkingSpace \<Rightarrow>
                            if hasBookingConflict (bookings d) (ps_id parkingSpace) (end_time b)
                                 newEndDate (Some (bid b)) \<noteq> None
                            then (Inl (ApiError BIZ_CONFLICT 409
                                   ''Cannot extend: parking space is already booked for the requested time period''), d)
                            else
                              let extensionMs = newEndDate - end_time b;
                                  extensionHours = ms_to_hours extensionMs;
                                  extensionPrice = calculateBookingPrice parkingSpace extensionHours;
                                  oldEndTime = end_time b;
                                  booking1 = booking\<lparr>stored := (stored booking)\<lparr>end_time := newEndDate\<rparr>,
                                     total_price := js_plus (total_price booking) (JNum extensionPrice),
                                     final_price := js_plus (final_price booking) (JNum extensionPrice)\<rparr>;
                                  booking2 = (case extensions booking1 of
                                                None \<Rightarrow> booking1\<lparr>extensions := Some []\<rparr>
                                              | Some _ \<Rightarrow> booking1);
                                  booking3 = booking2\<lparr>extensions :=
                                     map_option (\<lambda>xs. xs @ [\<lparr>old_end_time = oldEndTime,
                                         new_end_time = newEndDate, extension_price = extensionPrice,
                                         extended_at = now\<rparr>]) (extensions booking2)\<rparr>;
                                  d' = save d now booking3
                              in (Inr \<lparr>er_booking = findById (bookings d') i,
                                        er_old_end_time = oldEndTime, er_new_end_time = newEndDate,
                                        er_additional_charge = extensionPrice\<rparr>, d')))))"

section \<open>Times of day\<close>

text \<open>
  Times of day are strings. The model of \<open>split\<close>, \<open>trim\<close>, \<open>Number\<close> and \<open>parseInt\<close> is
  exact on strings made of ASCII digits, colons and ASCII blanks (tab, line feed, vertical
  tab, form feed, carriage return, space), which include every string the schema's
  \<open>HH:MM\<close> validator accepts; signs, fractions, exponents, hexadecimal literals and
  blanks beyond ASCII are outside the modelled fragment.
\<close>

definition is_digit :: "char \<Rightarrow> bool" where
  "is_digit c \<longleftrightarrow> (48::nat) \<le> of_char c \<and> (of_char c :: nat) \<le> 57"

definition digit_val :: "char \<Rightarrow> nat" where
  "digit_val c = of_char c - 48"

definition digits_value :: "string \<Rightarrow> nat" where
  "digits_value s = foldl (\<lambda>acc c. acc * 10 + digit_val c) 0 s"

text \<open>\<open>s.split(':')\<close>: the pieces between the colons, at least one piece.\<close>

fun split_colon :: "string \<Rightarrow> string list" where
  "split_colon [] = [[]]"
| "split_colon (c # cs) =
     (if c = CHR '':'' then [] # split_colon cs
      else (case split_colon cs of
              [] \<Rightarrow> [[c]]
            | p # ps \<Rightarrow> (c # p) # ps))"

text \<open>The blanks that \<open>trim\<close>, \<open>Number\<close> and \<open>parseInt\<close> skip, as far as they are ASCII.\<close>

definition is_space :: "char \<Rightarrow> bool" where
  "is_space c \<longleftrightarrow> (of_char c :: nat) \<in> set [9, 10, 11, 12, 13, 32]"

text \<open>\<open>s.trim()\<close>, which the \<open>trim: true\<close> setter of a schema path applies.\<close>

definition js_trim :: "string \<Rightarrow> string" where
  "js_trim s = rev (dropWhile is_space (rev (dropWhile is_space s)))"

text \<open>
  \<open>Number(s)\<close>: blanks at both ends are dropped; the empty string is 0, a string of digits
  is its decimal value.
\<close>

definition Number_js :: "string \<Rightarrow> jsnum" where
  "Number_js s =
     (let t = js_trim s
      in if t = [] then JNum 0
         else if list_all is_digit t then JNum (of_nat (digits_value t))
         else NaN)"

text \<open>
  \<open>parseInt(s)\<close>: leading blanks are dropped; the decimal value of the longest prefix of
  digits, \<open>NaN\<close> without one.
\<close>

definition parseInt_js :: "string \<Rightarrow> jsnum" where
  "parseInt_js s =
     (let ds = takeWhile is_digit (dropWhile is_space s)
      in if ds = [] then NaN else JNum (of_nat (digits_value ds)))"

text \<open>Reading an array element: \<open>undefined\<close> past the end.\<close>

fun element :: "'a list \<Rightarrow> nat \<Rightarrow> 'a option" where
  "element [] k = None"
| "element (x # xs) 0 = Some x"
| "element (x # xs) (Suc k) = element xs k"

text \<open>The inner helper \<open>toMinutes\<close> of \<open>hasTimeConflict\<close>.\<close>

definition toMinutes :: "string \<Rightarrow> jsnum" where
  "toMinutes time =
     (let parts = map Number_js (split_colon time);
          hours = (case element parts 0 of None \<Rightarrow> Undefined | Some h \<Rightarrow> h);
          minutes = (case element parts 1 of None \<Rightarrow> Undefined | Some m \<Rightarrow> m)
      in js_plus (js_times hours (JNum 60)) minutes)"

definition hasTimeConflict :: "string \<Rightarrow> string \<Rightarrow> string \<Rightarrow> string \<Rightarrow> bool" where
  "hasTimeConflict start1 end1 start2 end2 =
     (let s1 = toMinutes start1;
          e1 = toMinutes end1;
          s2 = toMinutes start2;
          e2 = toMinutes end2
      in js_lt s1 e2 \<and> js_gt e1 s2)"

text \<open>
  The expression \<open>parseInt(t.split(':')[0]) * 60 + parseInt(t.split(':')[1])\<close> that the
  three availability handlers use for the range check; \<open>parseInt(undefined)\<close> is \<open>NaN\<close>.
\<close>

definition rangeMinutes :: "string \<Rightarrow> jsnum" where
  "rangeMinutes t =
     js_plus
       (js_times (case element (split_colon t) 0 of None \<Rightarrow> NaN | Some h \<Rightarrow> parseInt_js h) (JNum 60))
       (case element (split_colon t) 1 of None \<Rightarrow> NaN | Some m \<Rightarrow> parseInt_js m)"

text \<open>The validator of \<open>available_from\<close> and \<open>available_to\<close>: \<open>/^([01]\d|2[0-3]):([0-5]\d)$/\<close>.\<close>

definition isHHMM :: "string \<Rightarrow> bool" where
  "isHHMM v =
     (case v of
        [a, b, c, m, n] \<Rightarrow>
          ((a \<in> set ''01'' \<and> is_digit b) \<or> (a = CHR ''2'' \<and> b \<in> set ''0123'')) \<and>
          c = CHR '':'' \<and> m \<in> set ''012345'' \<and> is_digit n
      | _ \<Rightarrow> False)"

text \<open>
  Minutes since midnight of an \<open>HH:MM\<close> string, as the specification words it: sixty
  times the two-digit hour plus the two-digit minute.
\<close>

definition minutes_since_midnight :: "string \<Rightarrow> nat" where
  "minutes_since_midnight v =
     (digit_val (v ! 0) * 10 + digit_val (v ! 1)) * 60 + (digit_val (v ! 3) * 10 + digit_val (v ! 4))"

section \<open>The availability controller\<close>

text \<open>
  The text of an answer of the availability controller: a literal of the source, or
  \<open>err.message\<close> of an error that was thrown. The wording of such a message is made by
  Mongoose or by the runtime; the model keeps only the kind of error it comes from.
\<close>

datatype thrown = ValidationError | TypeError

datatype message = Text string | Message_of thrown

text \<open>
  An error of the availability controller: the envelope, and the \<open>conflicting_schedule\<close>
  detail when there is one.
\<close>

datatype av_error = AvError error_code nat message "availability option"

text \<open>The message of the 409 answer of \<open>createAvailability\<close> and \<open>updateAvailability\<close>.\<close>

definition conflict_message :: message where
  "conflict_message = Text ''Time slot conflicts with existing availability''"

text \<open>
  Document validation of \<open>spaceAvailabilitySchema\<close>, run by \<open>create\<close> and \<open>save\<close> on the
  document after its setters (the two times are stored trimmed): \<open>day_of_week\<close> between 0
  and 6 (an integer by its type here), both times in \<open>HH:MM\<close>.
\<close>

definition availability_valid :: "availability \<Rightarrow> bool" where
  "availability_valid a \<longleftrightarrow>
     0 \<le> day_of_week a \<and> day_of_week a \<le> 6 \<and> isHHMM (available_from a) \<and> isHHMM (available_to a)"

text \<open>
  The owner check shared by the handlers: an admin passes; otherwise the requester must
  have an owner profile that owns the space.
\<close>

definition mayManage :: "db \<Rightarrow> user \<Rightarrow> parking_space \<Rightarrow> bool" where
  "mayManage d reqUser parkingSpace \<longleftrightarrow>
     (if user_type reqUser \<noteq> Role_admin then
        (case find (\<lambda>w. o_user_id w = uid reqUser) (owners d) of
           None \<Rightarrow> False
         | Some ownr \<Rightarrow> ps_owner_id parkingSpace = oid ownr)
      else True)"

record availability_body =
  ab_day_of_week :: int
  ab_available_from :: string
  ab_available_to :: string
  ab_is_available :: "bool option"

text \<open>\<open>createAvailability\<close>; \<open>newId\<close> is the fresh \<open>_id\<close>.\<close>

definition createAvailability ::
  "db \<Rightarrow> user \<Rightarrow> object_id \<Rightarrow> object_id \<Rightarrow> availability_body
     \<Rightarrow> (av_error + availability) \<times> db" where
  "createAvailability d reqUser newId spaceId body =
     (case find (\<lambda>s. ps_id s = spaceId) (parkingSpaces d) of
        None \<Rightarrow> (Inl (AvError NOT_FOUND 404 (Text ''Parking space not found'') None), d)
      | Some parkingSpace \<Rightarrow>
          if \<not> mayManage d reqUser parkingSpace
          then (Inl (AvError AUTH_FORBIDDEN 403 (Text ''Not authorized to manage this parking space'') None), d)
          else
            let fromMinutes = rangeMinutes (ab_available_from body);
                toMins = rangeMinutes (ab_available_to body)
            in
            if js_ge fromMinutes toMins
            then (Inl (AvError REQ_VALIDATION 400 (Text ''available_from must be before available_to'') None), d)
            else
              let existingSchedules =
                    filter (\<lambda>a. av_space_id a = spaceId \<and> day_of_week a = ab_day_of_week body)
                      (availabilities d)
              in
              (case find (\<lambda>schedule. hasTimeConflict (ab_available_from body) (ab_available_to body)
                                        (available_from schedule) (available_to schedule))
                      existingSchedules of
                 Some schedule \<Rightarrow>
                   (Inl (AvError BIZ_CONFLICT 409 conflict_message
                           (Some schedule)), d)
               | None \<Rightarrow>
                   let availability =
                         \<lparr>aid = newId, av_space_id = spaceId, day_of_week = ab_day_of_week body,
                          available_from = js_trim (ab_available_from body),
                          available_to = js_trim (ab_available_to body),
                          is_available = (case ab_is_available body of None \<Rightarrow> True | Some v \<Rightarrow> v)\<rparr>
                   in
                   if \<not> availability_valid availability
                   then (Inl (AvError REQ_VALIDATION 400 (Message_of ValidationError) None), d)
                   else (Inr availability, d\<lparr>availabilities := availabilities d @ [availability]\<rparr>)))"

text \<open>The body of an update: every field is optional; an empty string is falsy.\<close>

record update_body =
  ub_day_of_week :: "int option"
  ub_available_from :: "string option"
  ub_available_to :: "string option"
  ub_is_available :: "bool option"

text \<open>
  The three values that \<open>updateAvailability\<close> validates: the field of the body when it is
  given (for the two times: when it is truthy), the stored one otherwise.
\<close>

definition newFrom :: "update_body \<Rightarrow> availability \<Rightarrow> string" where
  "newFrom body availability =
     (case ub_available_from body of
        None \<Rightarrow> available_from availability
      | Some v \<Rightarrow> if v \<noteq> [] then v else available_from availability)"

definition newTo :: "update_body \<Rightarrow> availability \<Rightarrow> string" where
  "newTo body availability =
     (case ub_available_to body of
        None \<Rightarrow> available_to availability
      | Some v \<Rightarrow> if v \<noteq> [] then v else available_to availability)"

definition newDay :: "update_body \<Rightarrow> availability \<Rightarrow> int" where
  "newDay body availability =
     (case ub_day_of_week body of None \<Rightarrow> day_of_week availability | Some dw \<Rightarrow> dw)"

text \<open>
  \<open>if (v) availability.path = v\<close> on a path with the \<open>trim\<close> setter: the trimmed value
  when one is given, the stored value otherwise.
\<close>

definition assigned :: "string option \<Rightarrow> string \<Rightarrow> string" where
  "assigned v old = (case v of None \<Rightarrow> old | Some t \<Rightarrow> if t \<noteq> [] then js_trim t else old)"

definition updateAvailability ::
  "db \<Rightarrow> user \<Rightarrow> object_id \<Rightarrow> update_body \<Rightarrow> (av_error + availability) \<times> db" where
  "updateAvailability d reqUser i body =
     (case find (\<lambda>a. aid a = i) (availabilities d) of
        None \<Rightarrow> (Inl (AvError NOT_FOUND 404 (Text ''Availability schedule not found'') None), d)
      | Some availability \<Rightarrow>
         (case find (\<lambda>s. ps_id s = av_space_id availability) (parkingSpaces d) of
            None \<Rightarrow> (Inl (AvError NOT_FOUND 404 (Text ''Parking space not found'') None), d)
          | Some parkingSpace \<Rightarrow>
              if \<not> mayManage d reqUser parkingSpace
              then (Inl (AvError AUTH_FORBIDDEN 403 (Text ''Not authorized to manage this parking space'') None), d)
              else
                let nFrom = newFrom body availability;
                    nTo = newTo body availability;
                    nDay = newDay body availability;
                    fromMinutes = rangeMinutes nFrom;
                    toMins = rangeMinutes nTo
                in
                if js_ge fromMinutes toMins
                then (Inl (AvError REQ_VALIDATION 400 (Text ''available_from must be before available_to'') None), d)
                else
                  let existingSchedules =
                        filter (\<lambda>a. aid a \<noteq> i \<and> av_space_id a = av_space_id availability \<and>
                                     day_of_week a = nDay) (availabilities d)
                  in
                  (case find (\<lambda>schedule. hasTimeConflict nFrom nTo
                                            (available_from schedule) (available_to schedule))
                          existingSchedules of
                     Some schedule \<Rightarrow>
                       (Inl (AvError BIZ_CONFLICT 409 conflict_message
                               (Some schedule)), d)
                   | None \<Rightarrow>
                       let availability' =
                             availability\<lparr>day_of_week := nDay,
                                available_from := assigned (ub_available_from body)
                                                    (available_from availability),
                                available_to := assigned (ub_available_to body)
                                                  (available_to availability),
                                is_available := (case ub_is_available body of
                                                   None \<Rightarrow> is_available availability
                                                 | Some v \<Rightarrow> v)\<rparr>
                       in
                       if \<not> availability_valid availability'
                       then (Inl (AvError REQ_VALIDATION 400 (Message_of ValidationError) None), d)
                       else (Inr availability',
                             d\<lparr>availabilities :=
                                  map (\<lambda>a. if aid a = i then availability' else a) (availabilities d)\<rparr>))))"

section \<open>Bulk creation of availability windows\<close>

text \<open>
  A property of an entry of \<open>schedules\<close> as the request carries it: absent, \<open>null\<close>, a
  number (by its value) or a string. (Booleans, arrays and objects are not represented.)
\<close>

datatype jv = J_undefined | J_null | J_num rat | J_str string

text \<open>\<open>!v\<close>.\<close>

fun js_falsy :: "jv \<Rightarrow> bool" where
  "js_falsy J_undefined = True"
| "js_falsy J_null = True"
| "js_falsy (J_num r) = (r = 0)"
| "js_falsy (J_str t) = (t = [])"

text \<open>
  One entry of \<open>schedules\<close> that is an object, by the four properties that the handler
  reads; \<open>is_available\<close> is absent or a boolean. (An entry that is a primitive value other
  than \<open>null\<close>, or an array, is not represented.)
\<close>

record schedule_in =
  si_day_of_week :: jv
  si_available_from :: jv
  si_available_to :: jv
  si_is_available :: "bool option"

text \<open>One entry of \<open>errors\<close>.\<close>

record bulk_error =
  be_index :: nat
  be_schedule :: schedule_in
  be_error :: message
  be_conflicting_schedule :: "availability option"

text \<open>The variables that the loop of \<open>bulkCreateAvailability\<close> updates, and the database.\<close>

record bulk_state =
  createdSchedules :: "availability list"
  errors :: "bulk_error list"
  store :: db

definition push_error ::
  "bulk_state \<Rightarrow> nat \<Rightarrow> schedule_in \<Rightarrow> message \<Rightarrow> availability option \<Rightarrow> bulk_state" where
  "push_error st i schedule msg conflicting =
     st\<lparr>errors := errors st @
          [\<lparr>be_index = i, be_schedule = schedule, be_error = msg,
            be_conflicting_schedule = conflicting\<rparr>]\<rparr>"

definition missing_message :: message where
  "missing_message = Text ''Missing required fields: day_of_week, available_from, available_to''"

definition range_message :: message where
  "range_message = Text ''available_from must be before available_to''"

definition existing_conflict_message :: message where
  "existing_conflict_message = Text ''Conflicts with existing schedule''"

definition batch_conflict_message :: message where
  "batch_conflict_message = Text ''Conflicts with another schedule in this bulk request''"

text \<open>
  \<open>w.day_of_week === day_of_week\<close>, between the number of a window and the value of the
  request as it came: true only of a number with that value, never of a string.
\<close>

definition strict_equal_day :: "int \<Rightarrow> jv \<Rightarrow> bool" where
  "strict_equal_day n v \<longleftrightarrow> v = J_num (of_int n)"

text \<open>
  What \<open>create\<close> makes of \<open>day_of_week\<close>: Mongoose casts the value to a number (a string
  through \<open>Number\<close>, the empty string to \<open>null\<close>) and the validators want it present and an
  integer. \<open>None\<close> is a value that fails there. For a string the cast is exact where
  \<open>Number_js\<close> is: on digits and blanks.
\<close>

definition cast_day :: "jv \<Rightarrow> int option" where
  "cast_day v =
     (case v of
        J_num r \<Rightarrow> if of_int \<lfloor>r\<rfloor> = r then Some \<lfloor>r\<rfloor> else None
      | J_str t \<Rightarrow>
          if t = [] then None
          else (case Number_js t of
                  JNum r \<Rightarrow> if of_int \<lfloor>r\<rfloor> = r then Some \<lfloor>r\<rfloor> else None
                | _ \<Rightarrow> None)
      | _ \<Rightarrow> None)"

text \<open>
  One iteration of the loop, for the entry \<open>schedule\<close> at index \<open>i\<close>. \<open>ids i\<close> is the
  \<open>_id\<close> given to the window created for that entry. An error thrown inside the \<open>try\<close>
  (by \<open>split\<close> on a value that is not a string, or by \<open>create\<close>) is caught there and
  pushed with its message.
\<close>

definition bulk_step ::
  "object_id \<Rightarrow> (nat \<Rightarrow> object_id) \<Rightarrow> availability list \<Rightarrow> nat \<Rightarrow> schedule_in
     \<Rightarrow> bulk_state \<Rightarrow> bulk_state" where
  "bulk_step spaceId ids existingSchedules i schedule st =
     (let day = si_day_of_week schedule in
      if day = J_undefined \<or> js_falsy (si_available_from schedule) \<or>
         js_falsy (si_available_to schedule)
      then push_error st i schedule missing_message None
      else
        case (si_available_from schedule, si_available_to schedule) of
          (J_str tfrom, J_str tto) \<Rightarrow>
            if js_ge (rangeMinutes tfrom) (rangeMinutes tto)
            then push_error st i schedule range_message None
            else
              (case find (\<lambda>existing. strict_equal_day (day_of_week existing) day \<and>
                            hasTimeConflict tfrom tto (available_from existing) (available_to existing))
                      existingSchedules of
                 Some existing \<Rightarrow> push_error st i schedule existing_conflict_message (Some existing)
               | None \<Rightarrow>
                  (case find (\<lambda>created. strict_equal_day (day_of_week created) day \<and>
                                hasTimeConflict tfrom tto (available_from created) (available_to created))
                          (createdSchedules st) of
                     Some created \<Rightarrow> push_error st i schedule batch_conflict_message None
                   | None \<Rightarrow>
                       (case cast_day day of
                          None \<Rightarrow> push_error st i schedule (Message_of ValidationError) None
                        | Some dw \<Rightarrow>
                            let availability =
                                  \<lparr>aid = ids i, av_space_id = spaceId, day_of_week = dw,
                                   available_from = js_trim tfrom, available_to = js_trim tto,
                                   is_available = (case si_is_available schedule of
                                                     None \<Rightarrow> True | Some v \<Rightarrow> v)\<rparr>
                            in
                            if \<not> availability_valid availability
                            then push_error st i schedule (Message_of ValidationError) None
                            else st\<lparr>createdSchedules := createdSchedules st @ [availability],
                                    store := (store st)\<lparr>availabilities :=
                                                availabilities (store st) @ [availability]\<rparr>\<rparr>)))
        | _ \<Rightarrow> push_error st i schedule (Message_of TypeError) None)"

text \<open>
  The loop \<open>for (let i = 0; i < schedules.length; i++)\<close>, from index \<open>i\<close> on. An element
  of the array that is \<open>null\<close> (\<open>None\<close> here) cannot be destructured; that happens before
  the \<open>try\<close> of the iteration, so the error leaves the loop, with the database as it is
  then (\<open>Inl\<close>).
\<close>

fun bulk_loop ::
  "object_id \<Rightarrow> (nat \<Rightarrow> object_id) \<Rightarrow> availability list \<Rightarrow> nat \<Rightarrow> schedule_in option list
     \<Rightarrow> bulk_state \<Rightarrow> db + bulk_state" where
  "bulk_loop spaceId ids existingSchedules i [] st = Inr st"
| "bulk_loop spaceId ids existingSchedules i (None # rest) st = Inl (store st)"
| "bulk_loop spaceId ids existingSchedules i (Some schedule # rest) st =
     bulk_loop spaceId ids existingSchedules (Suc i) rest
       (bulk_step spaceId ids existingSchedules i schedule st)"

record bulk_response =
  br_created :: "availability list"
  br_created_count :: nat
  br_failed_count :: nat
  br_errors :: "bulk_error list option"

text \<open>
  \<open>bulkCreateAvailability\<close>. \<open>schedules\<close> is \<open>None\<close> when the body carries no array. An
  error that leaves the loop reaches the outer \<open>catch\<close>, which answers 500.
\<close>

definition bulkCreateAvailability ::
  "db \<Rightarrow> user \<Rightarrow> (nat \<Rightarrow> object_id) \<Rightarrow> object_id \<Rightarrow> schedule_in option list option
     \<Rightarrow> (av_error + bulk_response) \<times> db" where
  "bulkCreateAvailability d reqUser ids spaceId schedules =
     (case schedules of
        None \<Rightarrow> (Inl (AvError REQ_VALIDATION 400 (Text ''schedules must be a non-empty array'') None), d)
      | Some entries \<Rightarrow>
          if length entries = 0
          then (Inl (AvError REQ_VALIDATION 400 (Text ''schedules must be a non-empty array'') None), d)
          else
            case find (\<lambda>s. ps_id s = spaceId) (parkingSpaces d) of
              None \<Rightarrow> (Inl (AvError NOT_FOUND 404 (Text ''Parking space not found'') None), d)
            | Some parkingSpace \<Rightarrow>
                if \<not> mayManage d reqUser parkingSpace
                then (Inl (AvError AUTH_FORBIDDEN 403
                             (Text ''Not authorized to manage this parking space'') None), d)
                else
                  let existingSchedules = filter (\<lambda>a. av_space_id a = spaceId) (availabilities d)
                  in
                  case bulk_loop spaceId ids existingSchedules 0 entries
                         \<lparr>createdSchedules = [], errors = [], store = d\<rparr> of
                    Inl d' \<Rightarrow>
                      (Inl (AvError SERVER_ERROR 500
                              (Text ''Error bulk creating availability schedules'') None), d')
                  | Inr st \<Rightarrow>
                      (Inr \<lparr>br_created = createdSchedules st,
                            br_created_count = length (createdSchedules st),
                            br_failed_count = length (errors st),
                            br_errors = (if length (errors st) > 0 then Some (errors st) else None)\<rparr>,
                       store st))"

section \<open>Predicates for the results on bulk creation\<close>

text \<open>
  The entries for which the results below are stated. The day of week is absent, \<open>null\<close> or
  a number, not a string; a time that is a string is made of digits, colons and blanks and
  has at most 12 characters, so that every number read from it is an integer that a double
  holds exactly.
\<close>

definition plain_text :: "string \<Rightarrow> bool" where
  "plain_text t \<longleftrightarrow>
     list_all (\<lambda>c. is_digit c \<or> c = CHR '':'' \<or> is_space c) t \<and> length t \<le> 12"

definition plain_entry :: "schedule_in \<Rightarrow> bool" where
  "plain_entry s \<longleftrightarrow>
     (case si_day_of_week s of J_str t \<Rightarrow> False | _ \<Rightarrow> True) \<and>
     (case si_available_from s of J_str t \<Rightarrow> plain_text t | _ \<Rightarrow> True) \<and>
     (case si_available_to s of J_str t \<Rightarrow> plain_text t | _ \<Rightarrow> True)"

text \<open>The three required fields are there.\<close>

definition complete :: "schedule_in \<Rightarrow> bool" where
  "complete s \<longleftrightarrow>
     si_day_of_week s \<noteq> J_undefined \<and> \<not> js_falsy (si_available_from s) \<and>
     \<not> js_falsy (si_available_to s)"

text \<open>Both times are strings.\<close>

definition textual :: "schedule_in \<Rightarrow> bool" where
  "textual s \<longleftrightarrow>
     (case (si_available_from s, si_available_to s) of
        (J_str f, J_str t) \<Rightarrow> True
      | _ \<Rightarrow> False)"

definition entry_from :: "schedule_in \<Rightarrow> string" where
  "entry_from s = (case si_available_from s of J_str t \<Rightarrow> t | _ \<Rightarrow> [])"

definition entry_to :: "schedule_in \<Rightarrow> string" where
  "entry_to s = (case si_available_to s of J_str t \<Rightarrow> t | _ \<Rightarrow> [])"

text \<open>The range of the entry is not refused: its start is not at or after its end.\<close>

definition in_order :: "schedule_in \<Rightarrow> bool" where
  "in_order s \<longleftrightarrow> \<not> js_ge (rangeMinutes (entry_from s)) (rangeMinutes (entry_to s))"

text \<open>
  The entry conflicts with the window \<open>w\<close>: its day of week is the number of the day of
  \<open>w\<close>, and \<open>hasTimeConflict\<close> holds of its times and those of \<open>w\<close>.
\<close>

definition clashes :: "schedule_in \<Rightarrow> availability \<Rightarrow> bool" where
  "clashes s w \<longleftrightarrow>
     strict_equal_day (day_of_week w) (si_day_of_week s) \<and>
     hasTimeConflict (entry_from s) (entry_to s) (available_from w) (available_to w)"

text \<open>
  The document of the entry passes validation: its day of week is an integer from 0 to 6
  and both times, trimmed, are in \<open>HH:MM\<close> format.
\<close>

definition creatable :: "schedule_in \<Rightarrow> bool" where
  "creatable s \<longleftrightarrow>
     (case cast_day (si_day_of_week s) of
        None \<Rightarrow> False
      | Some dw \<Rightarrow> 0 \<le> dw \<and> dw \<le> 6) \<and>
     isHHMM (js_trim (entry_from s)) \<and> isHHMM (js_trim (entry_to s))"

text \<open>The window stored for an accepted entry.\<close>

definition entry_window :: "object_id \<Rightarrow> object_id \<Rightarrow> schedule_in \<Rightarrow> availability" where
  "entry_window spaceId newId s =
     \<lparr>aid = newId, av_space_id = spaceId,
      day_of_week = (case cast_day (si_day_of_week s) of None \<Rightarrow> 0 | Some dw \<Rightarrow> dw),
      available_from = js_trim (entry_from s), available_to = js_trim (entry_to s),
      is_available = (case si_is_available s of None \<Rightarrow> True | Some v \<Rightarrow> v)\<rparr>"

text \<open>
  An entry is accepted when its fields are there and are strings, its range is in order, it
  conflicts with no stored window of the space (\<open>existing\<close>) and with no window accepted
  earlier in the same request (\<open>earlier\<close>), and its document passes validation.
\<close>

definition acceptable :: "availability list \<Rightarrow> availability list \<Rightarrow> schedule_in \<Rightarrow> bool" where
  "acceptable existing earlier s \<longleftrightarrow>
     complete s \<and> textual s \<and> in_order s \<and>
     (\<forall>w \<in> set existing. \<not> clashes s w) \<and>
     (\<forall>c \<in> set earlier. \<not> clashes s c) \<and>
     creatable s"

text \<open>
  The error reported for a rejected entry states the first check that the entry fails:
  missing field; a time that is not a string (the message of the type error); invalid range;
  a conflict with a stored window, which is identified and is the first such window in
  storage order; a conflict with a window accepted earlier in the request, reported by its
  message only; or the message of the validation error.
\<close>

definition truthful :: "availability list \<Rightarrow> availability list \<Rightarrow> bulk_error \<Rightarrow> bool" where
  "truthful existing earlier e \<longleftrightarrow>
     (let s = be_schedule e in
      (be_error e = missing_message \<and> be_conflicting_schedule e = None \<and> \<not> complete s) \<or>
      (be_error e = Message_of TypeError \<and> be_conflicting_schedule e = None \<and>
         complete s \<and> \<not> textual s) \<or>
      (be_error e = range_message \<and> be_conflicting_schedule e = None \<and>
         complete s \<and> textual s \<and> \<not> in_order s) \<or>
      (be_error e = existing_conflict_message \<and>
         complete s \<and> textual s \<and> in_order s \<and>
         (case be_conflicting_schedule e of
            None \<Rightarrow> False
          | Some w \<Rightarrow> find (clashes s) existing = Some w)) \<or>
      (be_error e = batch_conflict_message \<and> be_conflicting_schedule e = None \<and>
         complete s \<and> textual s \<and> in_order s \<and>
         (\<forall>w \<in> set existing. \<not> clashes s w) \<and> (\<exists>c \<in> set earlier. clashes s c)) \<or>
      (be_error e = Message_of ValidationError \<and> be_conflicting_schedule e = None \<and>
         complete s \<and> textual s \<and> in_order s \<and>
         (\<forall>w \<in> set existing. \<not> clashes s w) \<and> (\<forall>c \<in> set earlier. \<not> clashes s c) \<and>
         \<not> creatable s))"

text \<open>
  The outcome of a request, entry by entry in list order, from index \<open>i\<close> on and with the
  windows \<open>earlier\<close> accepted so far: an acceptable entry contributes the next created
  window, which is its window with the \<open>_id\<close> of its index; any other entry contributes
  the next error, with its index, the entry itself and a truthful reason; the entries after
  it are handled all the same. Nothing else is created or reported.
\<close>

fun explained ::
  "object_id \<Rightarrow> (nat \<Rightarrow> object_id) \<Rightarrow> availability list \<Rightarrow> availability list \<Rightarrow> nat
     \<Rightarrow> schedule_in list \<Rightarrow> availability list \<Rightarrow> bulk_error list \<Rightarrow> bool" where
  "explained spaceId ids existing earlier i [] cs es \<longleftrightarrow> cs = [] \<and> es = []"
| "explained spaceId ids existing earlier i (s # rest) cs es \<longleftrightarrow>
     (if acceptable existing earlier s
      then (case cs of
              [] \<Rightarrow> False
            | c # cs' \<Rightarrow> c = entry_window spaceId (ids i) s \<and>
                explained spaceId ids existing (earlier @ [c]) (Suc i) rest cs' es)
      else (case es of
              [] \<Rightarrow> False
            | e # es' \<Rightarrow> be_index e = i \<and> be_schedule e = s \<and> truthful existing earlier e \<and>
                explained spaceId ids existing earlier (Suc i) rest cs es'))"

text \<open>
  The reasons as the claim lists them: missing field, invalid range, or an identified
  conflicting window.
\<close>

definition claimed_reason :: "bulk_error \<Rightarrow> bool" where
  "claimed_reason e \<longleftrightarrow>
     be_error e = missing_message \<or> be_error e = range_message \<or> be_conflicting_schedule e \<noteq> None"

text \<open>The \<open>errors\<close> of a response, the empty list when the field is absent.\<close>

definition reported :: "bulk_response \<Rightarrow> bulk_error list" where
  "reported resp = (case br_errors resp of None \<Rightarrow> [] | Some es \<Rightarrow> es)"

text \<open>The reservation invariant on the stored bookings: \<open>end > start\<close>.\<close>

definition well_formed :: "db \<Rightarrow> bool" where
  "well_formed d \<longleftrightarrow> (\<forall>b \<in> set (bookings d). start_time b < end_time b)"

section \<open>Sample data\<close>

text \<open>The scenario data of the specification, used to instantiate the results below.\<close>

definition hour :: int where
  "hour = 1000 * 60 * 60"

definition demo_space :: parking_space where
  "demo_space =
     \<lparr>ps_id = 7, ps_owner_id = 3, hourly_rate = 10, daily_rate = 80, monthly_rate = 600,
      ps_status = Space_active\<rparr>"

definition demo_booking :: booking where
  "demo_booking =
     \<lparr>bid = 12, booking_number = ''BK-1'', user_id = 5, owner_id = 3, space_id = 7,
      vehicle_id = 9, start_time = 10 * hour, end_time = 14 * hour, duration_hours = 4,
      base_price = 40, discount_amount = 0, total_amount = 40, currency = ''USD'',
      status = Confirmed, payment_status = Paid, check_in_time = None, check_out_time = None,
      cancellation_reason = None, created_at = 0, updated_at = 0\<rparr>"

definition demo_promo :: promo_code where
  "demo_promo =
     \<lparr>pid = 11, code = ''SAVE20'', promo_type = Percentage, discount_value = 20,
      max_discount_amount = Some 5, valid_from = 0, valid_to = 100 * hour,
      usage_limit_total = None, usage_count = 0, is_active = True\<rparr>"

definition demo_window :: availability where
  "demo_window =
     \<lparr>aid = 21, av_space_id = 7, day_of_week = 1, available_from = ''09:00'',
      available_to = ''12:00'', is_available = False\<rparr>"

definition demo_db :: db where
  "demo_db =
     \<lparr>bookings = [demo_booking], parkingSpaces = [demo_space],
      userVehicles = [\<lparr>vid = 9, v_user_id = 5, is_verified = True\<rparr>],
      promoCodes = [demo_promo], owners = [\<lparr>oid = 3, o_user_id = 4\<rparr>],
      availabilities = [demo_window]\<rparr>"

definition demo_admin :: user where
  "demo_admin = \<lparr>uid = 2, user_type = Role_admin\<rparr>"

definition demo_user :: user where
  "demo_user = \<lparr>uid = 5, user_type = Role_user\<rparr>"

definition demo_create_body :: create_body where
  "demo_create_body =
     \<lparr>cb_space_id = Some 7, cb_vehicle_id = Some 9, cb_start_time = Some (Date (20 * hour)),
      cb_end_time = Some (Date (23 * hour)), cb_promo_code = Some ''SAVE20''\<rparr>"

definition demo_active_db :: db where
  "demo_active_db = demo_db\<lparr>bookings := [demo_booking\<lparr>status := Active\<rparr>]\<rparr>"

definition demo_window2 :: availability where
  "demo_window2 =
     \<lparr>aid = 22, av_space_id = 7, day_of_week = 1, available_from = ''13:00'',
      available_to = ''15:00'', is_available = True\<rparr>"

definition demo_db2 :: db where
  "demo_db2 = demo_db\<lparr>availabilities := [demo_window, demo_window2]\<rparr>"

definition demo_ids :: "nat \<Rightarrow> object_id" where
  "demo_ids k = 100 + k"

definition demo_entry :: "rat \<Rightarrow> string \<Rightarrow> string \<Rightarrow> schedule_in" where
  "demo_entry dw f t =
     \<lparr>si_day_of_week = J_num dw, si_available_from = J_str f, si_available_to = J_str t,
      si_is_available = None\<rparr>"

text \<open>
  A request of eight entries against the stored window 09:00 to 12:00 of day 1: no day of
  week; accepted; conflict with the entry before; conflict with the stored window; range
  out of order; day 9; a start that is a number; accepted, with a blank before its start.
\<close>

definition demo_batch :: "schedule_in list" where
  "demo_batch =
     [\<lparr>si_day_of_week = J_undefined, si_available_from = J_str ''09:00'',
       si_available_to = J_str ''10:00'', si_is_available = None\<rparr>,
      demo_entry 1 ''12:00'' ''14:00'', demo_entry 1 ''13:00'' ''15:00'',
      demo_entry 1 ''11:00'' ''13:00'', demo_entry 2 ''14:00'' ''12:00'',
      demo_entry 9 ''09:00'' ''10:00'',
      \<lparr>si_day_of_week = J_num 2, si_available_from = J_num 9,
       si_available_to = J_str ''10:00'', si_is_available = None\<rparr>,
      demo_entry 2 '' 09:00'' ''10:00'']"

definition demo_pair :: "schedule_in list" where
  "demo_pair = [demo_entry 1 ''12:00'' ''14:00'', demo_entry 1 ''13:00'' ''15:00'']"

text \<open>The day of week sent as the string \<open>1\<close>, on times that overlap the stored window.\<close>

definition demo_string_day :: schedule_in where
  "demo_string_day =
     \<lparr>si_day_of_week = J_str ''1'', si_available_from = J_str ''11:00'',
      si_available_to = J_str ''13:00'', si_is_available = None\<rparr>"

section \<open>Results about booking conflicts\<close>

lemma range_tests_iff_overlap:
  fixes s e S E :: int
  assumes "S < E" and "s < e"
  shows "((s \<le> S \<and> e > S) \<or> (s < E \<and> e \<ge> E) \<or> (s \<ge> S \<and> e \<le> E)) \<longleftrightarrow> (s < E \<and> e > S)"
  using assms by linarith

text \<open>
  Without \<open>start_time < end_time\<close> on the stored booking the third range test is wider than
  the overlap rule: a stored booking of length zero that sits on the candidate's start is
  matched by the filter although it does not overlap. The handlers never store such a
  booking (see the section on stored intervals below).
\<close>

lemma conflictFilter_degenerate:
  "conflictFilter 7 (10 * hour) (16 * hour) None (demo_booking\<lparr>end_time := 10 * hour\<rparr>) \<and>
   \<not> overlaps (10 * hour) (16 * hour) (demo_booking\<lparr>end_time := 10 * hour\<rparr>)"
  by (simp add: conflictFilter_def overlaps_def demo_booking_def hour_def)

text \<open>
  Claim C1. For a candidate interval \<open>[S, E)\<close> with \<open>S < E\<close> and a stored booking of the
  same space whose interval \<open>[s, e)\<close> is well formed (\<open>s < e\<close>, the reservation invariant),
  the three-disjunct filter of \<open>hasBookingConflict\<close> matches the booking if and only if
  \<open>s < E\<close> and \<open>e > S\<close> and the status is none of cancelled, completed, no_show (and the
  booking is not the excluded one). Touching intervals (\<open>e = S\<close> or \<open>s = E\<close>) are never
  matched. \<open>hasBookingConflict\<close> reports a booking exactly when the collection holds one that
  overlaps in this sense, and the booking it reports is such a booking.
\<close>

theorem hasBookingConflict_iff_half_open_overlap:
  assumes "S < E" and "\<forall>b \<in> set bs. start_time b < end_time b"
  shows "(\<forall>b \<in> set bs. space_id b = spaceId \<longrightarrow>
           (conflictFilter spaceId S E ex b \<longleftrightarrow>
              overlaps S E b \<and> is_active_status (status b) \<and> ex \<noteq> Some (bid b))) \<and>
         (\<forall>b \<in> set bs. end_time b = S \<or> start_time b = E \<longrightarrow>
              \<not> conflictFilter spaceId S E ex b) \<and>
         (hasBookingConflict bs spaceId S E ex \<noteq> None \<longleftrightarrow>
           (\<exists>b \<in> set bs. space_id b = spaceId \<and> overlaps S E b \<and>
                is_active_status (status b) \<and> ex \<noteq> Some (bid b))) \<and>
         (\<forall>c. hasBookingConflict bs spaceId S E ex = Some c \<longrightarrow>
           c \<in> set bs \<and> space_id c = spaceId \<and> overlaps S E c \<and> is_active_status (status c))"
proof -
  have key: "conflictFilter spaceId S E ex b \<longleftrightarrow>
      space_id b = spaceId \<and> overlaps S E b \<and> is_active_status (status b) \<and> ex \<noteq> Some (bid b)"
    if "b \<in> set bs" for b
  proof -
    from that assms(2) have "start_time b < end_time b" by blast
    from range_tests_iff_overlap [OF assms(1) this]
    show ?thesis
      unfolding conflictFilter_def overlaps_def is_active_status_def
      by (cases ex) auto
  qed
  have a: "\<forall>b \<in> set bs. space_id b = spaceId \<longrightarrow>
           (conflictFilter spaceId S E ex b \<longleftrightarrow>
              overlaps S E b \<and> is_active_status (status b) \<and> ex \<noteq> Some (bid b))"
    using key by blast
  have b: "\<forall>b \<in> set bs. end_time b = S \<or> start_time b = E \<longrightarrow>
              \<not> conflictFilter spaceId S E ex b"
    using key by (auto simp: overlaps_def)
  have c: "hasBookingConflict bs spaceId S E ex \<noteq> None \<longleftrightarrow>
           (\<exists>b \<in> set bs. space_id b = spaceId \<and> overlaps S E b \<and>
                is_active_status (status b) \<and> ex \<noteq> Some (bid b))"
    unfolding hasBookingConflict_def find_None_iff using key by blast
  have d: "\<forall>c. hasBookingConflict bs spaceId S E ex = Some c \<longrightarrow>
           c \<in> set bs \<and> space_id c = spaceId \<and> overlaps S E c \<and> is_active_status (status c)"
  proof (intro allI impI)
    fix c assume "hasBookingConflict bs spaceId S E ex = Some c"
    then have "c \<in> set bs" and "conflictFilter spaceId S E ex c"
      unfolding hasBookingConflict_def by (auto simp: find_Some_iff)
    with key [of c]
    show "c \<in> set bs \<and> space_id c = spaceId \<and> overlaps S E c \<and> is_active_status (status c)"
      by blast
  qed
  from a b c d show ?thesis by blast
qed

theorem hasBookingConflict_iff_half_open_overlap_witness:
  "hasBookingConflict [demo_booking] 7 (13 * hour) (16 * hour) None \<noteq> None \<and>
   hasBookingConflict [demo_booking] 7 (14 * hour) (16 * hour) None = None \<and>
   \<not> conflictFilter 7 (14 * hour) (16 * hour) None demo_booking"
  using hasBookingConflict_iff_half_open_overlap [of "13 * hour" "16 * hour" "[demo_booking]" 7 None]
        hasBookingConflict_iff_half_open_overlap [of "14 * hour" "16 * hour" "[demo_booking]" 7 None]
  by (simp add: demo_booking_def hour_def overlaps_def is_active_status_def)

section \<open>Results about pricing\<close>

text \<open>
  Claim C2. For every rate card and every duration \<open>d\<close> in hours, the base price is the
  hourly rate times \<open>d\<close> when \<open>d \<le> 24\<close>, the daily rate times \<open>ceil(d / 24)\<close> when
  \<open>24 < d \<le> 720\<close>, and the monthly rate times \<open>ceil(d / 720)\<close> when \<open>d > 720\<close>. A duration
  of exactly 24 hours is priced on the hourly tier; 24.01 hours are priced as 2 days. (The
  signs of the rates and of \<open>d\<close> play no role.)
\<close>

theorem calculateBookingPrice_tiers:
  "(d \<le> 24 \<longrightarrow> calculateBookingPrice sp d = hourly_rate sp * d) \<and>
   (24 < d \<and> d \<le> 720 \<longrightarrow> calculateBookingPrice sp d = daily_rate sp * of_int \<lceil>d / 24\<rceil>) \<and>
   (720 < d \<longrightarrow> calculateBookingPrice sp d = monthly_rate sp * of_int \<lceil>d / 720\<rceil>) \<and>
   calculateBookingPrice sp 24 = hourly_rate sp * 24 \<and>
   calculateBookingPrice sp (2401 / 100) = daily_rate sp * 2"
proof -
  have "\<lceil>(2401 / 100 :: rat) / 24\<rceil> = 2" by (simp add: ceiling_eq_iff)
  then show ?thesis by (simp add: calculateBookingPrice_def Let_def)
qed

theorem calculateBookingPrice_tiers_witness:
  "calculateBookingPrice demo_space 3 = 30 \<and>
   calculateBookingPrice demo_space 48 = 160 \<and>
   calculateBookingPrice demo_space 1000 = 1200"
proof -
  have c: "\<lceil>(25 / 18 :: rat)\<rceil> = 2" by (simp add: ceiling_eq_iff)
  show ?thesis
    using calculateBookingPrice_tiers [of 3 demo_space]
          calculateBookingPrice_tiers [of 48 demo_space]
          calculateBookingPrice_tiers [of 1000 demo_space]
    by (simp add: demo_space_def c)
qed

section \<open>Results about cancellation\<close>

text \<open>
  No value of the \<open>payment_status\<close> enum is the string \<open>completed\<close>, so the branch of
  \<open>cancelBooking\<close> that creates a refund record is never taken.
\<close>

lemma payment_status_never_completed: "payment_status_string ps \<noteq> ''completed''"
  by (cases ps) simp_all

text \<open>
  Claim C3. A cancellation by a requester allowed to cancel (the booking's user, an admin,
  or the owner) of a booking whose status is none of cancelled, completed, no_show succeeds,
  and its refund percentage is 0 when the booking has started (\<open>now \<ge> start\<close>); otherwise
  100 when the hours until start exceed 48, 50 when they exceed 24 and do not exceed 48,
  and 0 when they do not exceed 24. Exactly 48 hours before the start the percentage is 50.
\<close>

theorem cancelBooking_refund_percentage:
  assumes "findById (bookings d) i = Some b"
      and "user_id b = uid reqUser \<or> user_type reqUser = Role_admin \<or> owner_id b = uid reqUser"
      and "status b \<noteq> Cancelled \<and> status b \<noteq> Completed \<and> status b \<noteq> No_show"
  shows "\<exists>resp. fst (cancelBooking d reqUser now i reason) = Inr resp \<and>
           (now \<ge> start_time b \<longrightarrow> cr_percentage resp = 0) \<and>
           (now < start_time b \<and> ms_to_hours (start_time b - now) > 48 \<longrightarrow> cr_percentage resp = 100) \<and>
           (now < start_time b \<and> 24 < ms_to_hours (start_time b - now) \<and>
              ms_to_hours (start_time b - now) \<le> 48 \<longrightarrow> cr_percentage resp = 50) \<and>
           (now < start_time b \<and> ms_to_hours (start_time b - now) \<le> 24 \<longrightarrow> cr_percentage resp = 0) \<and>
           (start_time b - now = 48 * hour \<longrightarrow> cr_percentage resp = 50)"
  using assms
  by (auto simp: cancelBooking_def Let_def refundPercentage_def payment_status_never_completed
        ms_to_hours_def hour_def)

theorem cancelBooking_refund_percentage_witness:
  "map_sum id cr_percentage (fst (cancelBooking demo_db demo_user (- 38 * hour) 12 None)) = Inr 50 \<and>
   map_sum id cr_percentage (fst (cancelBooking demo_db demo_user (- 39 * hour) 12 None)) = Inr 100 \<and>
   map_sum id cr_percentage (fst (cancelBooking demo_db demo_user (- 14 * hour) 12 None)) = Inr 0 \<and>
   map_sum id cr_percentage (fst (cancelBooking demo_db demo_user (11 * hour) 12 None)) = Inr 0"
proof -
  have f: "findById (bookings demo_db) 12 = Some demo_booking"
    by (simp add: findById_def demo_db_def demo_booking_def)
  have a: "user_id demo_booking = uid demo_user \<or> user_type demo_user = Role_admin \<or>
           owner_id demo_booking = uid demo_user"
    by (simp add: demo_booking_def demo_user_def)
  have s: "status demo_booking \<noteq> Cancelled \<and> status demo_booking \<noteq> Completed \<and>
           status demo_booking \<noteq> No_show"
    by (simp add: demo_booking_def)
  have st: "start_time demo_booking = 10 * hour" by (simp add: demo_booking_def)
  show ?thesis
    using cancelBooking_refund_percentage [OF f a s, of "- 38 * hour" None]
          cancelBooking_refund_percentage [OF f a s, of "- 39 * hour" None]
          cancelBooking_refund_percentage [OF f a s, of "- 14 * hour" None]
          cancelBooking_refund_percentage [OF f a s, of "11 * hour" None]
    by (auto simp: st hour_def ms_to_hours_def)
qed

section \<open>Results about the promo code in the create-booking flow\<close>

text \<open>
  Whatever promo code a request carries, the discount that \<open>createBooking\<close> computes is
  zero: \<open>discount_type\<close> is not a path of \<open>promoCodeSchema\<close> (which declares
  \<open>promo_type\<close>), so neither the \<open>percentage\<close> nor the \<open>fixed\<close> branch is taken.
\<close>

lemma applyPromo_discount_zero:
  assumes "applyPromo d now totalPrice pc = Inr (da, fp, d')"
  shows "da = JNum 0"
  using assms
  by (auto simp: applyPromo_def hydrate_promo_def Let_def split: if_splits option.splits)

lemma upper_demo: "toUpperCase ''save20'' = ''SAVE20''"
  by code_simp

text \<open>
  The sibling path: \<open>validatePromoCode\<close> reads \<open>promo_type\<close> and answers the capped
  percentage discount, 5, for the same promo code and a booking amount of 30.
\<close>

lemma validatePromoCode_caps_percentage:
  "map_sum id snd (validatePromoCode demo_db 0 (Some ''save20'') 30) = Inr 5"
  by (simp add: validatePromoCode_def demo_db_def demo_promo_def upper_demo hour_def)

text \<open>
  Claim C4 (the code departs from it). A request for 3 hours on a space with hourly rate 10,
  carrying the active, in-window percentage promo of 20 percent capped at 5, creates a
  booking with base price 30, discount 0 and total 30, where the claim says discount 5 and
  total 25.
\<close>

theorem createBooking_percentage_promo_not_applied:
  "map_sum id (map_option (\<lambda>b. (base_price b, discount_amount b, total_amount b)))
     (fst (createBooking demo_db demo_user 0 100 ''BK-2'' demo_create_body))
     = Inr (Some (30, 0, 30))"
  by (simp add: createBooking_def demo_create_body_def demo_db_def demo_user_def demo_space_def
        demo_booking_def demo_promo_def hasBookingConflict_def conflictFilter_def
        calculateBookingPrice_def ms_to_hours_def hour_def applyPromo_def hydrate_promo_def
        save_promo_def Booking_create_def findById_def)

section \<open>Results about what check-in, check-out and extension store\<close>

lemma find_replaced:
  assumes "find (\<lambda>x. bid x = i) bs = Some b" and "bid b' = i"
  shows "find (\<lambda>x. bid x = i) (map (\<lambda>x. if bid x = i then b' else x) bs) = Some b'"
  using assms by (induction bs) auto

lemma findById_bid: "findById bs i = Some b \<Longrightarrow> bid b = i"
  by (auto simp: findById_def find_Some_iff)

text \<open>A successful check-out stores the status \<open>completed\<close> and nothing else.\<close>

lemma checkOut_stored:
  assumes "findById (bookings d) i = Some b" and "fst (checkOut d u now i) = Inr resp"
  shows "bookings (snd (checkOut d u now i)) =
           map (\<lambda>x. if bid x = i then b\<lparr>status := Completed, updated_at := now\<rparr> else x) (bookings d)
         \<and> co_booking resp = findById (bookings (snd (checkOut d u now i))) i
         \<and> status b = Active
         \<and> co_overtime resp = (if overtimeCharge d now b > 0 then Some (overtimeCharge d now b) else None)"
proof -
  have i: "bid b = i" using assms(1) by (rule findById_bid)
  show ?thesis
    using assms(2) unfolding checkOut_def
    by (auto simp add: assms(1) i Let_def hydrate_def save_def split: if_splits)
qed

text \<open>A successful extension stores the new end time and nothing else.\<close>

lemma extendBooking_stored:
  assumes "findById (bookings d) i = Some b" and "fst (extendBooking d u now i ne) = Inr resp"
  shows "\<exists>newEnd. ne = Some (Date newEnd) \<and>
           bookings (snd (extendBooking d u now i ne)) =
             map (\<lambda>x. if bid x = i then b\<lparr>end_time := newEnd, updated_at := now\<rparr> else x) (bookings d)
           \<and> er_booking resp = findById (bookings (snd (extendBooking d u now i ne))) i"
proof -
  have i: "bid b = i" using assms(1) by (rule findById_bid)
  show ?thesis
    using assms(2) unfolding extendBooking_def
    by (auto simp add: assms(1) i Let_def hydrate_def save_def
          split: if_splits option.splits js_date.splits)
qed

text \<open>
  Claim C9. After a successful extension and after a successful check-out, the stored
  booking has the \<open>base_price\<close>, \<open>discount_amount\<close> and \<open>total_amount\<close> it had before;
  indeed it is the prior record except for \<open>end_time\<close> and \<open>updated_at\<close> (extension), or
  \<open>status\<close> and \<open>updated_at\<close> (check-out). The response carries that stored record.
\<close>

theorem extend_and_checkOut_keep_stored_prices:
  assumes "findById (bookings d) i = Some b"
  shows "(\<forall>resp. fst (extendBooking d u now i ne) = Inr resp \<longrightarrow>
            (\<exists>b'. findById (bookings (snd (extendBooking d u now i ne))) i = Some b' \<and>
                  er_booking resp = Some b' \<and>
                  base_price b' = base_price b \<and> discount_amount b' = discount_amount b \<and>
                  total_amount b' = total_amount b \<and>
                  b' = b\<lparr>end_time := end_time b', updated_at := updated_at b'\<rparr>)) \<and>
         (\<forall>resp. fst (checkOut d u now i) = Inr resp \<longrightarrow>
            (\<exists>b'. findById (bookings (snd (checkOut d u now i))) i = Some b' \<and>
                  co_booking resp = Some b' \<and>
                  base_price b' = base_price b \<and> discount_amount b' = discount_amount b \<and>
                  total_amount b' = total_amount b \<and>
                  b' = b\<lparr>status := status b', updated_at := updated_at b'\<rparr>))"
proof (intro conjI allI impI)
  have i: "bid b = i" using assms by (rule findById_bid)
  {
    fix resp assume ok: "fst (extendBooking d u now i ne) = Inr resp"
    from extendBooking_stored [OF assms ok] obtain newEnd where
      st: "bookings (snd (extendBooking d u now i ne)) =
             map (\<lambda>x. if bid x = i then b\<lparr>end_time := newEnd, updated_at := now\<rparr> else x) (bookings d)"
      and rb: "er_booking resp = findById (bookings (snd (extendBooking d u now i ne))) i"
      by blast
    have "findById (bookings (snd (extendBooking d u now i ne))) i
            = Some (b\<lparr>end_time := newEnd, updated_at := now\<rparr>)"
      unfolding st findById_def
      by (rule find_replaced [OF assms [unfolded findById_def]]) (simp add: i)
    with rb
    show "\<exists>b'. findById (bookings (snd (extendBooking d u now i ne))) i = Some b' \<and>
                  er_booking resp = Some b' \<and>
                  base_price b' = base_price b \<and> discount_amount b' = discount_amount b \<and>
                  total_amount b' = total_amount b \<and>
                  b' = b\<lparr>end_time := end_time b', updated_at := updated_at b'\<rparr>"
      by simp
  }
  {
    fix resp assume ok: "fst (checkOut d u now i) = Inr resp"
    from checkOut_stored [OF assms ok] have
      st: "bookings (snd (checkOut d u now i)) =
             map (\<lambda>x. if bid x = i then b\<lparr>status := Completed, updated_at := now\<rparr> else x) (bookings d)"
      and rb: "co_booking resp = findById (bookings (snd (checkOut d u now i))) i"
      by blast+
    have "findById (bookings (snd (checkOut d u now i))) i
            = Some (b\<lparr>status := Completed, updated_at := now\<rparr>)"
      unfolding st findById_def
      by (rule find_replaced [OF assms [unfolded findById_def]]) (simp add: i)
    with rb
    show "\<exists>b'. findById (bookings (snd (checkOut d u now i))) i = Some b' \<and>
                  co_booking resp = Some b' \<and>
                  base_price b' = base_price b \<and> discount_amount b' = discount_amount b \<and>
                  total_amount b' = total_amount b \<and>
                  b' = b\<lparr>status := status b', updated_at := updated_at b'\<rparr>"
      by simp
  }
qed

lemma demo_find: "findById (bookings demo_db) 12 = Some demo_booking"
  by (simp add: findById_def demo_db_def demo_booking_def)

lemma demo_active_find:
  "findById (bookings demo_active_db) 12 = Some (demo_booking\<lparr>status := Active\<rparr>)"
  by (simp add: findById_def demo_active_db_def demo_db_def demo_booking_def)

text \<open>Two hours more on the sample booking cost 20; the extension succeeds.\<close>

lemma demo_extend_ok:
  "map_sum id er_additional_charge
     (fst (extendBooking demo_db demo_user (12 * hour) 12 (Some (Date (16 * hour))))) = Inr 20"
  by (simp add: extendBooking_def findById_def Let_def hydrate_def
        demo_db_def demo_user_def demo_booking_def demo_space_def hour_def
        hasBookingConflict_def conflictFilter_def calculateBookingPrice_def ms_to_hours_def)

text \<open>Three hours past the end at hourly rate 10 the response reports a charge of 45.\<close>

lemma demo_checkOut_ok:
  "map_sum id co_overtime (fst (checkOut demo_active_db demo_admin (17 * hour) 12)) = Inr (Some 45)"
  by (simp add: checkOut_def findById_def Let_def hydrate_def
        demo_active_db_def demo_db_def demo_admin_def demo_booking_def demo_space_def hour_def
        overtimeCharge_def ms_to_hours_def)

theorem extend_and_checkOut_keep_stored_prices_witness:
  "map_option (\<lambda>b. (base_price b, discount_amount b, total_amount b))
     (findById (bookings (snd (extendBooking demo_db demo_user (12 * hour) 12
         (Some (Date (16 * hour)))))) 12)
     = Some (40, 0, 40) \<and>
   map_option (\<lambda>b. (base_price b, discount_amount b, total_amount b))
     (findById (bookings (snd (checkOut demo_active_db demo_admin (17 * hour) 12))) 12)
     = Some (40, 0, 40)"
proof -
  from demo_extend_ok obtain r1 where
    r1: "fst (extendBooking demo_db demo_user (12 * hour) 12 (Some (Date (16 * hour)))) = Inr r1"
    by (cases "fst (extendBooking demo_db demo_user (12 * hour) 12 (Some (Date (16 * hour))))") auto
  from demo_checkOut_ok obtain r2 where
    r2: "fst (checkOut demo_active_db demo_admin (17 * hour) 12) = Inr r2"
    by (cases "fst (checkOut demo_active_db demo_admin (17 * hour) 12)") auto
  note t1 = extend_and_checkOut_keep_stored_prices [OF demo_find, where u = demo_user
      and now = "12 * hour" and ne = "Some (Date (16 * hour))"]
  from t1 [THEN conjunct1, rule_format, OF r1] obtain b1 where
    b1: "findById (bookings (snd (extendBooking demo_db demo_user (12 * hour) 12
            (Some (Date (16 * hour)))))) 12 = Some b1"
      "base_price b1 = base_price demo_booking" "discount_amount b1 = discount_amount demo_booking"
      "total_amount b1 = total_amount demo_booking"
    by blast
  note t2 = extend_and_checkOut_keep_stored_prices [OF demo_active_find, where u = demo_admin
      and now = "17 * hour" and ne = None]
  from t2 [THEN conjunct2, rule_format, OF r2] obtain b2 where
    b2: "findById (bookings (snd (checkOut demo_active_db demo_admin (17 * hour) 12))) 12 = Some b2"
      "base_price b2 = base_price (demo_booking\<lparr>status := Active\<rparr>)"
      "discount_amount b2 = discount_amount (demo_booking\<lparr>status := Active\<rparr>)"
      "total_amount b2 = total_amount (demo_booking\<lparr>status := Active\<rparr>)"
    by blast
  show ?thesis
    by (simp add: b1 b2) (simp add: demo_booking_def)
qed

section \<open>Results about check-out\<close>

text \<open>
  What holds of \<open>checkOut\<close>: a booking that is not active is rejected; for an active booking
  and an authorised requester the check-out succeeds, the stored status becomes
  \<open>completed\<close>, and when the clock is past the end and the space exists the response
  reports \<open>ceil(overtime hours) * hourly rate * 1.5\<close>.
\<close>

lemma checkOut_rejects_inactive:
  assumes "findById (bookings d) i = Some b" and "status b \<noteq> Active"
  shows "\<exists>e. checkOut d u now i = (Inl e, d)"
  using assms by (simp add: checkOut_def Let_def)

lemma overtimeCharge_value:
  assumes "now > end_time b" and "find (\<lambda>s. ps_id s = space_id b) (parkingSpaces d) = Some sp"
  shows "overtimeCharge d now b = of_int \<lceil>ms_to_hours (now - end_time b)\<rceil> * hourly_rate sp * (3 / 2)"
  using assms by (simp add: overtimeCharge_def Let_def)

text \<open>
  Claim C6 (the code departs from it). An active booking with total 40 on a space with
  hourly rate 10 is checked out 3 hours after its end. The response reports the overtime
  charge 45 and the stored status is \<open>completed\<close>, but the stored \<open>total_amount\<close> is still
  40: the charge is added to \<open>final_price\<close>, which is not a path of \<open>bookingSchema\<close>, where
  the claim says it is added to the booking's total.
\<close>

theorem checkOut_overtime_not_added_to_total:
  "map_sum id co_overtime (fst (checkOut demo_active_db demo_admin (17 * hour) 12)) = Inr (Some 45) \<and>
   map_option (\<lambda>b. (status b, total_amount b))
     (findById (bookings (snd (checkOut demo_active_db demo_admin (17 * hour) 12))) 12)
     = Some (Completed, 40)"
proof -
  have "bookings (snd (checkOut demo_active_db demo_admin (17 * hour) 12))
          = [demo_booking\<lparr>status := Completed, updated_at := 17 * hour\<rparr>]"
    by (simp add: checkOut_def findById_def Let_def hydrate_def
          demo_active_db_def demo_db_def demo_admin_def demo_booking_def save_def)
  then show ?thesis
    using demo_checkOut_ok by (simp add: findById_def demo_booking_def)
qed

section \<open>Results about times of day\<close>

lemma digit_not_colon: "is_digit c \<Longrightarrow> c \<noteq> CHR '':''"
  by (auto simp: is_digit_def)

lemma digit_not_space: "is_digit c \<Longrightarrow> \<not> is_space c"
  by (auto simp: is_digit_def is_space_def)

lemma hhmm_shape:
  assumes "isHHMM v"
  shows "\<exists>a b m n. v = [a, b, CHR '':'', m, n] \<and> is_digit a \<and> is_digit b \<and> is_digit m \<and> is_digit n"
  using assms
  by (auto simp: isHHMM_def is_digit_def split: list.splits)

lemma toMinutes_digits:
  assumes "is_digit a" "is_digit b" "is_digit m" "is_digit n"
  shows "toMinutes [a, b, CHR '':'', m, n]
           = JNum (of_nat ((digit_val a * 10 + digit_val b) * 60 + (digit_val m * 10 + digit_val n)))"
  using assms digit_not_colon [of a] digit_not_colon [of b] digit_not_colon [of m] digit_not_colon [of n]
  by (simp add: toMinutes_def Number_js_def js_trim_def digit_not_space digits_value_def Let_def)

lemma rangeMinutes_digits:
  assumes "is_digit a" "is_digit b" "is_digit m" "is_digit n"
  shows "rangeMinutes [a, b, CHR '':'', m, n]
           = JNum (of_nat ((digit_val a * 10 + digit_val b) * 60 + (digit_val m * 10 + digit_val n)))"
  using assms digit_not_colon [of a] digit_not_colon [of b] digit_not_colon [of m] digit_not_colon [of n]
  by (simp add: rangeMinutes_def parseInt_js_def digit_not_space digits_value_def Let_def)

text \<open>
  On a string that the schema's validator accepts, \<open>toMinutes\<close> and the range expression
  both compute the minutes since midnight.
\<close>

lemma toMinutes_HHMM:
  assumes "isHHMM v"
  shows "toMinutes v = JNum (of_nat (minutes_since_midnight v))"
proof -
  from hhmm_shape [OF assms] obtain a b m n where
    v: "v = [a, b, CHR '':'', m, n]" and d: "is_digit a" "is_digit b" "is_digit m" "is_digit n"
    by blast
  show ?thesis
    unfolding v toMinutes_digits [OF d] by (simp add: minutes_since_midnight_def)
qed

lemma rangeMinutes_HHMM:
  assumes "isHHMM v"
  shows "rangeMinutes v = JNum (of_nat (minutes_since_midnight v))"
proof -
  from hhmm_shape [OF assms] obtain a b m n where
    v: "v = [a, b, CHR '':'', m, n]" and d: "is_digit a" "is_digit b" "is_digit m" "is_digit n"
    by blast
  show ?thesis
    unfolding v rangeMinutes_digits [OF d] by (simp add: minutes_since_midnight_def)
qed

lemma js_trim_HHMM:
  assumes "isHHMM v"
  shows "js_trim v = v"
proof -
  from hhmm_shape [OF assms] obtain a b m n where
    v: "v = [a, b, CHR '':'', m, n]" and d: "is_digit a" "is_digit n"
    by blast
  show ?thesis
    unfolding v using d by (simp add: js_trim_def digit_not_space)
qed

lemma hasTimeConflict_HHMM:
  assumes "isHHMM from1" "isHHMM to1" "isHHMM from2" "isHHMM to2"
  shows "hasTimeConflict from1 to1 from2 to2 \<longleftrightarrow>
           minutes_since_midnight from1 < minutes_since_midnight to2 \<and>
           minutes_since_midnight to1 > minutes_since_midnight from2"
  using assms by (simp add: hasTimeConflict_def Let_def toMinutes_HHMM)

lemma demo_times:
  "isHHMM ''09:00''" "isHHMM ''12:00''" "isHHMM ''11:00''" "isHHMM ''14:00''"
  "minutes_since_midnight ''09:00'' = 540" "minutes_since_midnight ''12:00'' = 720"
  "minutes_since_midnight ''11:00'' = 660" "minutes_since_midnight ''14:00'' = 840"
  by (simp_all add: isHHMM_def is_digit_def minutes_since_midnight_def digit_val_def)


section \<open>Results about availability windows\<close>

lemma find_SomeD: "find P xs = Some c \<Longrightarrow> c \<in> set xs \<and> P c"
  by (induction xs) (auto split: if_splits)

lemma find_in_filter:
  assumes "w \<in> set xs" and "Q w" and "P w"
  shows "\<exists>c. find P (filter Q xs) = Some c \<and> c \<in> set xs \<and> Q c \<and> P c"
proof -
  have "find P (filter Q xs) \<noteq> None"
    using assms by (auto simp: find_None_iff)
  then obtain c where c: "find P (filter Q xs) = Some c" by blast
  then have "c \<in> set (filter Q xs) \<and> P c"
    by (rule find_SomeD)
  with c show ?thesis by auto
qed

text \<open>
  The scan of \<open>createAvailability\<close> and \<open>updateAvailability\<close>: a stored window of the same
  space and day that conflicts with the requested times makes the handler answer 409 and
  leave the database as it was. The window reported is the first such window in storage
  order.
\<close>

lemma createAvailability_conflict:
  assumes "find (\<lambda>s. ps_id s = spaceId) (parkingSpaces d) = Some ps"
      and "mayManage d u ps"
      and "\<not> js_ge (rangeMinutes (ab_available_from body)) (rangeMinutes (ab_available_to body))"
      and "w \<in> set (availabilities d)" and "av_space_id w = spaceId"
      and "day_of_week w = ab_day_of_week body"
      and "hasTimeConflict (ab_available_from body) (ab_available_to body)
             (available_from w) (available_to w)"
  shows "\<exists>c. createAvailability d u newId spaceId body =
               (Inl (AvError BIZ_CONFLICT 409 conflict_message (Some c)), d) \<and>
             c \<in> set (availabilities d)"
proof -
  from find_in_filter [of w "availabilities d"
      "\<lambda>a. av_space_id a = spaceId \<and> day_of_week a = ab_day_of_week body"
      "\<lambda>schedule. hasTimeConflict (ab_available_from body) (ab_available_to body)
                     (available_from schedule) (available_to schedule)"] assms(4-7)
  obtain c where c: "find (\<lambda>schedule. hasTimeConflict (ab_available_from body) (ab_available_to body)
                     (available_from schedule) (available_to schedule))
       (filter (\<lambda>a. av_space_id a = spaceId \<and> day_of_week a = ab_day_of_week body) (availabilities d))
         = Some c" and "c \<in> set (availabilities d)"
    by blast
  then show ?thesis
    using assms(1-3) by (simp add: createAvailability_def Let_def conflict_message_def)
qed

lemma updateAvailability_conflict:
  assumes "find (\<lambda>a. aid a = i) (availabilities d) = Some a"
      and "find (\<lambda>s. ps_id s = av_space_id a) (parkingSpaces d) = Some ps"
      and "mayManage d u ps"
      and "\<not> js_ge (rangeMinutes (newFrom body a)) (rangeMinutes (newTo body a))"
      and "w \<in> set (availabilities d)" and "aid w \<noteq> i" and "av_space_id w = av_space_id a"
      and "day_of_week w = newDay body a"
      and "hasTimeConflict (newFrom body a) (newTo body a) (available_from w) (available_to w)"
  shows "\<exists>c. updateAvailability d u i body =
               (Inl (AvError BIZ_CONFLICT 409 conflict_message (Some c)), d) \<and>
             c \<in> set (availabilities d)"
proof -
  from find_in_filter [of w "availabilities d"
      "\<lambda>x. aid x \<noteq> i \<and> av_space_id x = av_space_id a \<and> day_of_week x = newDay body a"
      "\<lambda>schedule. hasTimeConflict (newFrom body a) (newTo body a)
                     (available_from schedule) (available_to schedule)"] assms(5-9)
  obtain c where c: "find (\<lambda>schedule. hasTimeConflict (newFrom body a) (newTo body a)
                     (available_from schedule) (available_to schedule))
       (filter (\<lambda>x. aid x \<noteq> i \<and> av_space_id x = av_space_id a \<and> day_of_week x = newDay body a)
          (availabilities d)) = Some c" and "c \<in> set (availabilities d)"
    by blast
  then show ?thesis
    using assms(1-4) by (simp add: updateAvailability_def Let_def conflict_message_def)
qed

lemma createAvailability_accepts:
  assumes "find (\<lambda>s. ps_id s = spaceId) (parkingSpaces d) = Some ps"
      and "mayManage d u ps"
      and "isHHMM (ab_available_from body)" and "isHHMM (ab_available_to body)"
      and "minutes_since_midnight (ab_available_from body) < minutes_since_midnight (ab_available_to body)"
      and "0 \<le> ab_day_of_week body" and "ab_day_of_week body \<le> 6"
      and "\<forall>w \<in> set (availabilities d). av_space_id w = spaceId \<and> day_of_week w = ab_day_of_week body \<longrightarrow>
             \<not> hasTimeConflict (ab_available_from body) (ab_available_to body)
                 (available_from w) (available_to w)"
  shows "\<exists>a. createAvailability d u newId spaceId body =
               (Inr a, d\<lparr>availabilities := availabilities d @ [a]\<rparr>) \<and>
             aid a = newId \<and> av_space_id a = spaceId \<and> day_of_week a = ab_day_of_week body \<and>
             available_from a = ab_available_from body \<and> available_to a = ab_available_to body"
proof -
  have n: "find (\<lambda>schedule. hasTimeConflict (ab_available_from body) (ab_available_to body)
                     (available_from schedule) (available_to schedule))
       (filter (\<lambda>a. av_space_id a = spaceId \<and> day_of_week a = ab_day_of_week body) (availabilities d))
         = None"
    using assms(8) by (auto simp: find_None_iff)
  show ?thesis
    using assms(1-7) n
    by (simp add: createAvailability_def Let_def rangeMinutes_HHMM availability_valid_def js_trim_HHMM)
qed


text \<open>
  Claim C7. For times in \<open>HH:MM\<close> format, \<open>hasTimeConflict\<close> holds of two windows if and
  only if, in minutes since midnight, \<open>from1 < to2\<close> and \<open>to1 > from2\<close>. For a requester who
  may manage an existing space: when the day already has a window 09:00 to 12:00, creating
  11:00 to 14:00 is rejected with a conflict (409) and nothing is stored; when that window is
  the only one of the day, creating 12:00 to 14:00 on it is accepted and stored.
\<close>

theorem hasTimeConflict_iff_minutes_overlap:
  assumes "find (\<lambda>s. ps_id s = spaceId) (parkingSpaces d) = Some ps" and "mayManage d u ps"
  shows "(isHHMM from1 \<and> isHHMM to1 \<and> isHHMM from2 \<and> isHHMM to2 \<longrightarrow>
            (hasTimeConflict from1 to1 from2 to2 \<longleftrightarrow>
               minutes_since_midnight from1 < minutes_since_midnight to2 \<and>
               minutes_since_midnight to1 > minutes_since_midnight from2)) \<and>
         (w \<in> set (availabilities d) \<and> av_space_id w = spaceId \<and> day_of_week w = dw \<and>
          available_from w = ''09:00'' \<and> available_to w = ''12:00'' \<longrightarrow>
            (\<exists>c. createAvailability d u newId spaceId
                    \<lparr>ab_day_of_week = dw, ab_available_from = ''11:00'',
                     ab_available_to = ''14:00'', ab_is_available = v\<rparr>
                  = (Inl (AvError BIZ_CONFLICT 409 conflict_message (Some c)), d))) \<and>
         (0 \<le> dw \<and> dw \<le> 6 \<and>
          filter (\<lambda>a. av_space_id a = spaceId \<and> day_of_week a = dw) (availabilities d) = [w] \<and>
          available_from w = ''09:00'' \<and> available_to w = ''12:00'' \<longrightarrow>
            (\<exists>a. createAvailability d u newId spaceId
                    \<lparr>ab_day_of_week = dw, ab_available_from = ''12:00'',
                     ab_available_to = ''14:00'', ab_is_available = v\<rparr>
                  = (Inr a, d\<lparr>availabilities := availabilities d @ [a]\<rparr>) \<and>
                 available_from a = ''12:00'' \<and> available_to a = ''14:00''))"
proof (intro conjI impI)
  assume "isHHMM from1 \<and> isHHMM to1 \<and> isHHMM from2 \<and> isHHMM to2"
  then show "hasTimeConflict from1 to1 from2 to2 \<longleftrightarrow>
               minutes_since_midnight from1 < minutes_since_midnight to2 \<and>
               minutes_since_midnight to1 > minutes_since_midnight from2"
    by (simp add: hasTimeConflict_HHMM)
next
  assume h: "w \<in> set (availabilities d) \<and> av_space_id w = spaceId \<and> day_of_week w = dw \<and>
          available_from w = ''09:00'' \<and> available_to w = ''12:00''"
  let ?body = "\<lparr>ab_day_of_week = dw, ab_available_from = ''11:00'',
                     ab_available_to = ''14:00'', ab_is_available = v\<rparr>"
  have r: "\<not> js_ge (rangeMinutes (ab_available_from ?body)) (rangeMinutes (ab_available_to ?body))"
    by (simp add: rangeMinutes_HHMM demo_times)
  have c: "hasTimeConflict (ab_available_from ?body) (ab_available_to ?body)
             (available_from w) (available_to w)"
    using h by (simp add: hasTimeConflict_HHMM demo_times)
  from createAvailability_conflict [OF assms r _ _ _ c, of newId] h
  show "\<exists>c. createAvailability d u newId spaceId ?body
                  = (Inl (AvError BIZ_CONFLICT 409 conflict_message (Some c)), d)"
    by auto
next
  assume h: "0 \<le> dw \<and> dw \<le> 6 \<and>
          filter (\<lambda>a. av_space_id a = spaceId \<and> day_of_week a = dw) (availabilities d) = [w] \<and>
          available_from w = ''09:00'' \<and> available_to w = ''12:00''"
  let ?body = "\<lparr>ab_day_of_week = dw, ab_available_from = ''12:00'',
                     ab_available_to = ''14:00'', ab_is_available = v\<rparr>"
  have n: "\<forall>x \<in> set (availabilities d). av_space_id x = spaceId \<and> day_of_week x = ab_day_of_week ?body \<longrightarrow>
             \<not> hasTimeConflict (ab_available_from ?body) (ab_available_to ?body)
                 (available_from x) (available_to x)"
  proof (intro ballI impI)
    fix x assume "x \<in> set (availabilities d)"
      and "av_space_id x = spaceId \<and> day_of_week x = ab_day_of_week ?body"
    then have "x \<in> set (filter (\<lambda>a. av_space_id a = spaceId \<and> day_of_week a = dw) (availabilities d))"
      by simp
    with h have "x = w" by simp
    with h show "\<not> hasTimeConflict (ab_available_from ?body) (ab_available_to ?body)
                 (available_from x) (available_to x)"
      by (simp add: hasTimeConflict_HHMM demo_times)
  qed
  from createAvailability_accepts [OF assms, of ?body newId] n h
  show "\<exists>a. createAvailability d u newId spaceId ?body
                  = (Inr a, d\<lparr>availabilities := availabilities d @ [a]\<rparr>) \<and>
                 available_from a = ''12:00'' \<and> available_to a = ''14:00''"
    by (auto simp: demo_times)
qed

lemma demo_space_find: "find (\<lambda>s. ps_id s = 7) (parkingSpaces demo_db) = Some demo_space"
  by (simp add: demo_db_def demo_space_def)

lemma demo_admin_manages: "mayManage d demo_admin ps"
  by (simp add: mayManage_def demo_admin_def)

theorem hasTimeConflict_iff_minutes_overlap_witness:
  "hasTimeConflict ''11:00'' ''14:00'' ''09:00'' ''12:00'' \<and>
   \<not> hasTimeConflict ''12:00'' ''14:00'' ''09:00'' ''12:00'' \<and>
   (\<exists>c. createAvailability demo_db demo_admin 30 7
           \<lparr>ab_day_of_week = 1, ab_available_from = ''11:00'', ab_available_to = ''14:00'',
            ab_is_available = None\<rparr>
         = (Inl (AvError BIZ_CONFLICT 409 conflict_message (Some c)), demo_db)) \<and>
   (\<exists>a. createAvailability demo_db demo_admin 30 7
           \<lparr>ab_day_of_week = 1, ab_available_from = ''12:00'', ab_available_to = ''14:00'',
            ab_is_available = None\<rparr>
         = (Inr a, demo_db\<lparr>availabilities := availabilities demo_db @ [a]\<rparr>) \<and>
        available_from a = ''12:00'' \<and> available_to a = ''14:00'')"
proof -
  note t = hasTimeConflict_iff_minutes_overlap [OF demo_space_find demo_admin_manages]
  have w: "demo_window \<in> set (availabilities demo_db) \<and> av_space_id demo_window = 7 \<and>
           day_of_week demo_window = 1 \<and> available_from demo_window = ''09:00'' \<and>
           available_to demo_window = ''12:00''"
    by (simp add: demo_db_def demo_window_def)
  have f: "0 \<le> (1::int) \<and> (1::int) \<le> 6 \<and>
           filter (\<lambda>a. av_space_id a = 7 \<and> day_of_week a = 1) (availabilities demo_db) = [demo_window] \<and>
           available_from demo_window = ''09:00'' \<and> available_to demo_window = ''12:00''"
    by (simp add: demo_db_def demo_window_def)
  have a: "hasTimeConflict ''11:00'' ''14:00'' ''09:00'' ''12:00''"
    using t [where ?from1.0 = "''11:00''" and ?to1.0 = "''14:00''" and ?from2.0 = "''09:00''"
                and ?to2.0 = "''12:00''", THEN conjunct1]
    by (simp add: demo_times)
  have b: "\<not> hasTimeConflict ''12:00'' ''14:00'' ''09:00'' ''12:00''"
    using t [where ?from1.0 = "''12:00''" and ?to1.0 = "''14:00''" and ?from2.0 = "''09:00''"
                and ?to2.0 = "''12:00''", THEN conjunct1]
    by (simp add: demo_times)
  from a b
    t [where w = demo_window and dw = 1 and newId = 30 and v = None, THEN conjunct2, THEN conjunct1, rule_format, OF w]
    t [where w = demo_window and dw = 1 and newId = 30 and v = None, THEN conjunct2, THEN conjunct2, rule_format, OF f]
  show ?thesis by blast
qed


text \<open>
  Claim C10. The conflict scan of create and of update looks at every stored window of the
  same space and day of week (for update: other than the window being updated), whatever
  its \<open>is_available\<close> flag: nothing is assumed about the flag of \<open>w\<close> below. If such a
  window overlaps the requested times, the handler answers 409 with a conflict and leaves
  the database unchanged. The instance after the theorem takes a window whose flag is false.
\<close>

theorem conflict_scan_ignores_is_available:
  assumes "w \<in> set (availabilities d)" and "mayManage d u ps"
      and "isHHMM (available_from w)" and "isHHMM (available_to w)"
  shows "(find (\<lambda>s. ps_id s = spaceId) (parkingSpaces d) = Some ps \<and>
          isHHMM (ab_available_from body) \<and> isHHMM (ab_available_to body) \<and>
          minutes_since_midnight (ab_available_from body) < minutes_since_midnight (ab_available_to body) \<and>
          av_space_id w = spaceId \<and> day_of_week w = ab_day_of_week body \<and>
          minutes_since_midnight (ab_available_from body) < minutes_since_midnight (available_to w) \<and>
          minutes_since_midnight (ab_available_to body) > minutes_since_midnight (available_from w)
          \<longrightarrow> (\<exists>c. createAvailability d u newId spaceId body =
                      (Inl (AvError BIZ_CONFLICT 409 conflict_message (Some c)), d))) \<and>
         (find (\<lambda>x. aid x = i) (availabilities d) = Some a \<and>
          find (\<lambda>s. ps_id s = av_space_id a) (parkingSpaces d) = Some ps \<and>
          isHHMM (newFrom ub a) \<and> isHHMM (newTo ub a) \<and>
          minutes_since_midnight (newFrom ub a) < minutes_since_midnight (newTo ub a) \<and>
          aid w \<noteq> i \<and> av_space_id w = av_space_id a \<and> day_of_week w = newDay ub a \<and>
          minutes_since_midnight (newFrom ub a) < minutes_since_midnight (available_to w) \<and>
          minutes_since_midnight (newTo ub a) > minutes_since_midnight (available_from w)
          \<longrightarrow> (\<exists>c. updateAvailability d u i ub =
                      (Inl (AvError BIZ_CONFLICT 409 conflict_message (Some c)), d)))"
proof (intro conjI impI)
  assume h: "find (\<lambda>s. ps_id s = spaceId) (parkingSpaces d) = Some ps \<and>
          isHHMM (ab_available_from body) \<and> isHHMM (ab_available_to body) \<and>
          minutes_since_midnight (ab_available_from body) < minutes_since_midnight (ab_available_to body) \<and>
          av_space_id w = spaceId \<and> day_of_week w = ab_day_of_week body \<and>
          minutes_since_midnight (ab_available_from body) < minutes_since_midnight (available_to w) \<and>
          minutes_since_midnight (ab_available_to body) > minutes_since_midnight (available_from w)"
  then have r: "\<not> js_ge (rangeMinutes (ab_available_from body)) (rangeMinutes (ab_available_to body))"
    by (simp add: rangeMinutes_HHMM)
  from h assms(3,4) have c: "hasTimeConflict (ab_available_from body) (ab_available_to body)
             (available_from w) (available_to w)"
    by (simp add: hasTimeConflict_HHMM)
  from h have sp: "find (\<lambda>s. ps_id s = spaceId) (parkingSpaces d) = Some ps" by simp
  from createAvailability_conflict [OF sp assms(2) r assms(1) _ _ c, of newId] h
  show "\<exists>c. createAvailability d u newId spaceId body =
                      (Inl (AvError BIZ_CONFLICT 409 conflict_message (Some c)), d)"
    by auto
next
  assume h: "find (\<lambda>x. aid x = i) (availabilities d) = Some a \<and>
          find (\<lambda>s. ps_id s = av_space_id a) (parkingSpaces d) = Some ps \<and>
          isHHMM (newFrom ub a) \<and> isHHMM (newTo ub a) \<and>
          minutes_since_midnight (newFrom ub a) < minutes_since_midnight (newTo ub a) \<and>
          aid w \<noteq> i \<and> av_space_id w = av_space_id a \<and> day_of_week w = newDay ub a \<and>
          minutes_since_midnight (newFrom ub a) < minutes_since_midnight (available_to w) \<and>
          minutes_since_midnight (newTo ub a) > minutes_since_midnight (available_from w)"
  then have r: "\<not> js_ge (rangeMinutes (newFrom ub a)) (rangeMinutes (newTo ub a))"
    by (simp add: rangeMinutes_HHMM)
  from h assms(3,4) have c: "hasTimeConflict (newFrom ub a) (newTo ub a)
             (available_from w) (available_to w)"
    by (simp add: hasTimeConflict_HHMM)
  from h have f: "find (\<lambda>x. aid x = i) (availabilities d) = Some a"
    and sp: "find (\<lambda>s. ps_id s = av_space_id a) (parkingSpaces d) = Some ps" by simp_all
  from updateAvailability_conflict [OF f sp assms(2) r assms(1) _ _ _ c] h
  show "\<exists>c. updateAvailability d u i ub =
                      (Inl (AvError BIZ_CONFLICT 409 conflict_message (Some c)), d)"
    by auto
qed

lemma demo_times2:
  "isHHMM ''15:00''" "minutes_since_midnight ''15:00'' = 900"
  by (simp_all add: isHHMM_def is_digit_def minutes_since_midnight_def digit_val_def)

theorem conflict_scan_ignores_is_available_witness:
  "is_available demo_window = False \<and>
   (\<exists>c. createAvailability demo_db2 demo_admin 30 7
           \<lparr>ab_day_of_week = 1, ab_available_from = ''11:00'', ab_available_to = ''12:00'',
            ab_is_available = None\<rparr>
         = (Inl (AvError BIZ_CONFLICT 409 conflict_message (Some c)), demo_db2)) \<and>
   (\<exists>c. updateAvailability demo_db2 demo_admin 22
           \<lparr>ub_day_of_week = None, ub_available_from = Some ''11:00'', ub_available_to = None,
            ub_is_available = None\<rparr>
         = (Inl (AvError BIZ_CONFLICT 409 conflict_message (Some c)), demo_db2))"
proof -
  let ?body = "\<lparr>ab_day_of_week = 1, ab_available_from = ''11:00'', ab_available_to = ''12:00'',
            ab_is_available = None\<rparr>"
  let ?ub = "\<lparr>ub_day_of_week = None, ub_available_from = Some ''11:00'', ub_available_to = None,
            ub_is_available = None\<rparr>"
  have w: "demo_window \<in> set (availabilities demo_db2)"
    by (simp add: demo_db2_def)
  have hw: "isHHMM (available_from demo_window)" "isHHMM (available_to demo_window)"
    by (simp_all add: demo_window_def demo_times)
  note t = conflict_scan_ignores_is_available [OF w demo_admin_manages hw]
  have c: "find (\<lambda>s. ps_id s = 7) (parkingSpaces demo_db2) = Some demo_space \<and>
          isHHMM (ab_available_from ?body) \<and> isHHMM (ab_available_to ?body) \<and>
          minutes_since_midnight (ab_available_from ?body) < minutes_since_midnight (ab_available_to ?body) \<and>
          av_space_id demo_window = 7 \<and> day_of_week demo_window = ab_day_of_week ?body \<and>
          minutes_since_midnight (ab_available_from ?body) < minutes_since_midnight (available_to demo_window) \<and>
          minutes_since_midnight (ab_available_to ?body) > minutes_since_midnight (available_from demo_window)"
    by (simp add: demo_db2_def demo_db_def demo_space_def demo_window_def demo_times)
  have nf: "newFrom ?ub demo_window2 = ''11:00''" "newTo ?ub demo_window2 = ''15:00''"
    "newDay ?ub demo_window2 = 1"
    by (simp_all add: newFrom_def newTo_def newDay_def demo_window2_def)
  have u: "find (\<lambda>x. aid x = 22) (availabilities demo_db2) = Some demo_window2 \<and>
          find (\<lambda>s. ps_id s = av_space_id demo_window2) (parkingSpaces demo_db2) = Some demo_space \<and>
          isHHMM (newFrom ?ub demo_window2) \<and> isHHMM (newTo ?ub demo_window2) \<and>
          minutes_since_midnight (newFrom ?ub demo_window2) < minutes_since_midnight (newTo ?ub demo_window2) \<and>
          aid demo_window \<noteq> 22 \<and> av_space_id demo_window = av_space_id demo_window2 \<and>
          day_of_week demo_window = newDay ?ub demo_window2 \<and>
          minutes_since_midnight (newFrom ?ub demo_window2) < minutes_since_midnight (available_to demo_window) \<and>
          minutes_since_midnight (newTo ?ub demo_window2) > minutes_since_midnight (available_from demo_window)"
    unfolding nf
    by (simp add: demo_db2_def demo_db_def demo_space_def demo_window_def demo_window2_def
          demo_times demo_times2)
  from t [where body = ?body and spaceId = 7 and newId = 30, THEN conjunct1, rule_format, OF c]
       t [where ub = ?ub and i = 22 and a = demo_window2, THEN conjunct2, rule_format, OF u]
  show ?thesis by (simp add: demo_window_def)
qed

section \<open>Results about check-in\<close>

text \<open>
  The guards of \<open>checkIn\<close> for an authorised requester and a confirmed booking: the
  check-in succeeds exactly when the clock is within one hour of the start, both ends
  included, and then the stored status becomes \<open>active\<close>; after the window the request is
  rejected and the stored status becomes \<open>no_show\<close>; before the window nothing is stored.
  A loaded booking has no \<open>verification_code\<close>, so a supplied code is never refused. In
  each case the stored record changes in \<open>status\<close> and \<open>updated_at\<close> only.
\<close>

lemma checkIn_window:
  assumes "findById (bookings d) i = Some b"
      and "user_type u = Role_admin \<or> ownerUserId d b = Some (uid u)"
      and "status b = Confirmed"
  shows "((\<exists>r. fst (checkIn d u now i vc) = Inr r) \<longleftrightarrow>
            start_time b - hour \<le> now \<and> now \<le> start_time b + hour) \<and>
         (start_time b - hour \<le> now \<and> now \<le> start_time b + hour \<longrightarrow>
            bookings (snd (checkIn d u now i vc)) =
              map (\<lambda>x. if bid x = i then b\<lparr>status := Active, updated_at := now\<rparr> else x) (bookings d)) \<and>
         (now > start_time b + hour \<longrightarrow>
            (\<exists>e. fst (checkIn d u now i vc) = Inl e) \<and>
            bookings (snd (checkIn d u now i vc)) =
              map (\<lambda>x. if bid x = i then b\<lparr>status := No_show, updated_at := now\<rparr> else x) (bookings d)) \<and>
         (now < start_time b - hour \<longrightarrow> snd (checkIn d u now i vc) = d)"
proof -
  have i: "bid b = i" using assms(1) by (rule findById_bid)
  show ?thesis
    using assms(2,3)
    by (auto simp add: checkIn_def assms(1) i Let_def hydrate_def save_def hour_def
          split: option.splits)
qed

text \<open>
  Claim C5 (the code departs from it). An admin checks the confirmed sample booking in at
  its start time. The check-in succeeds and the status becomes \<open>active\<close>, but no stored
  path holds the actual start: the handler assigns \<open>actual_start_time\<close>, which
  \<open>bookingSchema\<close> does not declare, and the declared \<open>check_in_time\<close> stays unset, where
  the claim says the actual start is recorded.
\<close>

theorem checkIn_actual_start_not_stored:
  "checkIn demo_db demo_admin (10 * hour) 12 None =
     (Inr (Some (demo_booking\<lparr>status := Active, updated_at := 10 * hour\<rparr>)),
      demo_db\<lparr>bookings := [demo_booking\<lparr>status := Active, updated_at := 10 * hour\<rparr>]\<rparr>) \<and>
   check_in_time (demo_booking\<lparr>status := Active, updated_at := 10 * hour\<rparr>) = None"
  by (simp add: checkIn_def Let_def hydrate_def
        demo_db_def demo_admin_def demo_booking_def save_def findById_def hour_def)

section \<open>Results about bulk creation\<close>

lemma push_error_fields:
  "\<exists>e. push_error st i s msg c = st\<lparr>errors := errors st @ [e]\<rparr> \<and> be_index e = i \<and>
       be_schedule e = s \<and> be_error e = msg \<and> be_conflicting_schedule e = c"
  unfolding push_error_def
  by (rule exI [where x = "\<lparr>be_index = i, be_schedule = s, be_error = msg,
                            be_conflicting_schedule = c\<rparr>"]) simp

lemma clashes_textual:
  assumes "si_available_from s = J_str f" and "si_available_to s = J_str t"
  shows "(\<lambda>w. strict_equal_day (day_of_week w) (si_day_of_week s) \<and>
              hasTimeConflict f t (available_from w) (available_to w)) = clashes s"
  using assms by (simp add: clashes_def entry_from_def entry_to_def fun_eq_iff)

lemma creatable_window:
  assumes "si_available_from s = J_str f" and "si_available_to s = J_str t"
      and "cast_day (si_day_of_week s) = Some dw"
  shows "availability_valid
           \<lparr>aid = k, av_space_id = sp, day_of_week = dw, available_from = js_trim f,
            available_to = js_trim t, is_available = v\<rparr> \<longleftrightarrow> creatable s"
  using assms by (simp add: availability_valid_def creatable_def entry_from_def entry_to_def)

text \<open>
  One iteration on an entry whose fields are there and whose times are strings, in terms of
  the predicates above.
\<close>

lemma bulk_step_textual:
  assumes "complete s" and "si_available_from s = J_str f" and "si_available_to s = J_str t"
  shows "bulk_step sp ids existing i s st =
     (if \<not> in_order s then push_error st i s range_message None
      else case find (clashes s) existing of
             Some w \<Rightarrow> push_error st i s existing_conflict_message (Some w)
           | None \<Rightarrow>
              (case find (clashes s) (createdSchedules st) of
                 Some c \<Rightarrow> push_error st i s batch_conflict_message None
               | None \<Rightarrow>
                   if creatable s
                   then st\<lparr>createdSchedules := createdSchedules st @ [entry_window sp (ids i) s],
                           store := (store st)\<lparr>availabilities :=
                              availabilities (store st) @ [entry_window sp (ids i) s]\<rparr>\<rparr>
                   else push_error st i s (Message_of ValidationError) None))"
proof -
  have c: "si_day_of_week s \<noteq> J_undefined" "\<not> js_falsy (J_str f)" "\<not> js_falsy (J_str t)"
    using assms by (simp_all add: complete_def)
  have o: "in_order s \<longleftrightarrow> \<not> js_ge (rangeMinutes f) (rangeMinutes t)"
    using assms by (simp add: in_order_def entry_from_def entry_to_def)
  note k = clashes_textual [OF assms(2,3)]
  show ?thesis
  proof (cases "cast_day (si_day_of_week s)")
    case None
    then have n: "\<not> creatable s" by (simp add: creatable_def)
    show ?thesis
      using c None n
      by (simp add: bulk_step_def Let_def assms(2,3) o k split: option.split)
  next
    case (Some dw)
    have w: "entry_window sp (ids i) s =
             \<lparr>aid = ids i, av_space_id = sp, day_of_week = dw, available_from = js_trim f,
              available_to = js_trim t,
              is_available = (case si_is_available s of None \<Rightarrow> True | Some v \<Rightarrow> v)\<rparr>"
      using assms Some by (simp add: entry_window_def entry_from_def entry_to_def)
    show ?thesis
      using c Some
      by (simp add: bulk_step_def Let_def assms(2,3) o k w creatable_window [OF assms(2,3) Some]
            split: option.split)
  qed
qed

lemma textualD:
  assumes "textual s"
  shows "\<exists>f t. si_available_from s = J_str f \<and> si_available_to s = J_str t"
  using assms by (auto simp: textual_def split: jv.splits)

lemma bulk_step_accepts:
  assumes "acceptable existing (createdSchedules st) s"
  shows "bulk_step sp ids existing i s st =
           st\<lparr>createdSchedules := createdSchedules st @ [entry_window sp (ids i) s],
              store := (store st)\<lparr>availabilities :=
                 availabilities (store st) @ [entry_window sp (ids i) s]\<rparr>\<rparr>"
proof -
  from assms have a: "complete s" "textual s" "in_order s" "creatable s"
    and e: "\<forall>w \<in> set existing. \<not> clashes s w"
    and b: "\<forall>c \<in> set (createdSchedules st). \<not> clashes s c"
    by (simp_all add: acceptable_def)
  from textualD [OF a(2)] obtain f t where
    ft: "si_available_from s = J_str f" "si_available_to s = J_str t" by blast
  have n1: "find (clashes s) existing = None" using e by (simp add: find_None_iff)
  have n2: "find (clashes s) (createdSchedules st) = None" using b by (simp add: find_None_iff)
  show ?thesis
    by (simp add: bulk_step_textual [OF a(1) ft] a n1 n2)
qed

lemma bulk_step_rejects:
  assumes "\<not> acceptable existing (createdSchedules st) s"
  shows "\<exists>e. bulk_step sp ids existing i s st = st\<lparr>errors := errors st @ [e]\<rparr> \<and>
             be_index e = i \<and> be_schedule e = s \<and> truthful existing (createdSchedules st) e"
proof (cases "complete s")
  case False
  then have "bulk_step sp ids existing i s st = push_error st i s missing_message None"
    by (auto simp add: bulk_step_def Let_def complete_def)
  with push_error_fields [of st i s missing_message None] False
  show ?thesis by (auto simp: truthful_def Let_def)
next
  case c: True
  show ?thesis
  proof (cases "textual s")
    case False
    have "bulk_step sp ids existing i s st = push_error st i s (Message_of TypeError) None"
      using c False
      by (simp add: bulk_step_def Let_def complete_def textual_def split: jv.splits)
    with push_error_fields [of st i s "Message_of TypeError" None] c False
    show ?thesis by (auto simp: truthful_def Let_def)
  next
    case t: True
    from textualD [OF t] obtain f t' where
      ft: "si_available_from s = J_str f" "si_available_to s = J_str t'" by blast
    note step = bulk_step_textual [OF c ft, of sp ids existing i st]
    show ?thesis
    proof (cases "in_order s")
      case False
      with step have "bulk_step sp ids existing i s st = push_error st i s range_message None"
        by simp
      with push_error_fields [of st i s range_message None] c t False
      show ?thesis by (auto simp: truthful_def Let_def)
    next
      case o: True
      show ?thesis
      proof (cases "find (clashes s) existing")
        case (Some w)
        with step o have "bulk_step sp ids existing i s st =
            push_error st i s existing_conflict_message (Some w)"
          by simp
        with push_error_fields [of st i s existing_conflict_message "Some w"] c t o Some
        show ?thesis by (auto simp: truthful_def Let_def)
      next
        case n1: None
        then have e: "\<forall>w \<in> set existing. \<not> clashes s w" by (simp add: find_None_iff)
        show ?thesis
        proof (cases "find (clashes s) (createdSchedules st)")
          case (Some k)
          then have x: "\<exists>k \<in> set (createdSchedules st). clashes s k"
            using find_SomeD [OF Some] by blast
          from step o n1 Some have "bulk_step sp ids existing i s st =
              push_error st i s batch_conflict_message None"
            by simp
          with push_error_fields [of st i s batch_conflict_message None] c t o e x
          show ?thesis by (auto simp: truthful_def Let_def)
        next
          case n2: None
          then have b: "\<forall>k \<in> set (createdSchedules st). \<not> clashes s k"
            by (simp add: find_None_iff)
          from assms c t o e b have nc: "\<not> creatable s" by (simp add: acceptable_def)
          from step o n1 n2 nc have "bulk_step sp ids existing i s st =
              push_error st i s (Message_of ValidationError) None"
            by simp
          with push_error_fields [of st i s "Message_of ValidationError" None] c t o e b nc
          show ?thesis by (auto simp: truthful_def Let_def)
        qed
      qed
    qed
  qed
qed

lemma explained_length:
  "explained sp ids existing earlier i xs cs es \<Longrightarrow> length cs + length es = length xs"
proof (induction xs arbitrary: earlier i cs es)
  case Nil
  then show ?case by simp
next
  case (Cons s rest)
  show ?case
  proof (cases "acceptable existing earlier s")
    case True
    with Cons.prems obtain c cs' where "cs = c # cs'"
      and "explained sp ids existing (earlier @ [c]) (Suc i) rest cs' es"
      by (auto split: list.splits)
    with Cons.IH [of "earlier @ [c]" "Suc i" cs' es] show ?thesis by simp
  next
    case False
    with Cons.prems obtain e es' where "es = e # es'"
      and "explained sp ids existing earlier (Suc i) rest cs es'"
      by (auto split: list.splits)
    with Cons.IH [of earlier "Suc i" cs es'] show ?thesis by simp
  qed
qed

text \<open>
  The loop on entries that are all objects: it ends, and what it adds to the created
  windows, to the errors and to the collection is the explained outcome of the entries.
\<close>

lemma bulk_loop_explained:
  "\<exists>st' cs es.
     bulk_loop sp ids existing i (map Some xs) st = Inr st' \<and>
     createdSchedules st' = createdSchedules st @ cs \<and>
     errors st' = errors st @ es \<and>
     store st' = (store st)\<lparr>availabilities := availabilities (store st) @ cs\<rparr> \<and>
     explained sp ids existing (createdSchedules st) i xs cs es"
proof (induction xs arbitrary: i st)
  case Nil
  show ?case by simp
next
  case (Cons s rest)
  let ?st1 = "bulk_step sp ids existing i s st"
  from Cons.IH [of "Suc i" ?st1] obtain st' cs es where
    l: "bulk_loop sp ids existing (Suc i) (map Some rest) ?st1 = Inr st'"
    and c: "createdSchedules st' = createdSchedules ?st1 @ cs"
    and e: "errors st' = errors ?st1 @ es"
    and s: "store st' = (store ?st1)\<lparr>availabilities := availabilities (store ?st1) @ cs\<rparr>"
    and x: "explained sp ids existing (createdSchedules ?st1) (Suc i) rest cs es"
    by blast
  show ?case
  proof (cases "acceptable existing (createdSchedules st) s")
    case True
    note a = bulk_step_accepts [OF True, of sp ids i]
    let ?w = "entry_window sp (ids i) s"
    have "bulk_loop sp ids existing i (map Some (s # rest)) st = Inr st'"
      using l by simp
    moreover have "createdSchedules st' = createdSchedules st @ (?w # cs)"
      using c by (simp add: a)
    moreover have "errors st' = errors st @ es"
      using e by (simp add: a)
    moreover have "store st' = (store st)\<lparr>availabilities := availabilities (store st) @ (?w # cs)\<rparr>"
      using s by (simp add: a)
    moreover have "explained sp ids existing (createdSchedules st) i (s # rest) (?w # cs) es"
      using x True by (simp add: a)
    ultimately show ?thesis by blast
  next
    case False
    from bulk_step_rejects [OF False, of sp ids i] obtain er where
      a: "?st1 = st\<lparr>errors := errors st @ [er]\<rparr>"
      and r: "be_index er = i" "be_schedule er = s" "truthful existing (createdSchedules st) er"
      by blast
    have "bulk_loop sp ids existing i (map Some (s # rest)) st = Inr st'"
      using l by simp
    moreover have "createdSchedules st' = createdSchedules st @ cs"
      using c by (simp add: a)
    moreover have "errors st' = errors st @ (er # es)"
      using e by (simp add: a)
    moreover have "store st' = (store st)\<lparr>availabilities := availabilities (store st) @ cs\<rparr>"
      using s by (simp add: a)
    moreover have "explained sp ids existing (createdSchedules st) i (s # rest) cs (er # es)"
      using x False r by (simp add: a)
    ultimately show ?thesis by blast
  qed
qed


text \<open>
  Claim C8, as amended. The request carries a non-empty array of entries for an existing
  space, from a requester who may manage it. Every entry is an object whose day of week is
  not a string and whose times, where they are strings, are made of digits, colons and
  blanks, at most 12 characters. Then bulk creation answers with a result, never with an
  error, and the result is the explained outcome of the entries against the stored windows
  of the space: the entries are handled one by one in list order, a rejected entry does not
  stop the entries after it, every acceptable entry is created (its window is appended to
  the collection, in order, with its times trimmed), and every other entry is reported with
  its index, the entry itself and the reason of the first check it fails. The reasons are:
  missing field; the message of the type error for a time that is not a string; invalid
  range; conflict with an existing schedule, together with the first conflicting stored
  window; conflict with another schedule of the same request, by message only; the message
  of the validation error. \<open>created_count\<close> and \<open>failed_count\<close> are the two lengths and add
  up to the number of entries; \<open>errors\<close> is absent when nothing failed.
\<close>

theorem bulkCreateAvailability_partial_success:
  assumes "xs \<noteq> []"
      and "find (\<lambda>s. ps_id s = spaceId) (parkingSpaces d) = Some ps"
      and "mayManage d u ps"
      and "\<forall>s \<in> set xs. plain_entry s"
  shows "\<exists>resp.
     bulkCreateAvailability d u ids spaceId (Some (map Some xs))
       = (Inr resp, d\<lparr>availabilities := availabilities d @ br_created resp\<rparr>) \<and>
     explained spaceId ids (filter (\<lambda>a. av_space_id a = spaceId) (availabilities d)) [] 0 xs
       (br_created resp) (reported resp) \<and>
     br_errors resp = (if reported resp = [] then None else Some (reported resp)) \<and>
     br_created_count resp = length (br_created resp) \<and>
     br_failed_count resp = length (reported resp) \<and>
     br_created_count resp + br_failed_count resp = length xs"
proof -
  let ?existing = "filter (\<lambda>a. av_space_id a = spaceId) (availabilities d)"
  let ?init = "\<lparr>createdSchedules = [], errors = [], store = d\<rparr>"
  from bulk_loop_explained [of spaceId ids ?existing 0 xs ?init] obtain st' cs es where
    l: "bulk_loop spaceId ids ?existing 0 (map Some xs) ?init = Inr st'"
    and c: "createdSchedules st' = cs"
    and e: "errors st' = es"
    and s: "store st' = d\<lparr>availabilities := availabilities d @ cs\<rparr>"
    and x: "explained spaceId ids ?existing [] 0 xs cs es"
    by auto
  define resp where
    "resp = \<lparr>br_created = cs, br_created_count = length cs, br_failed_count = length es,
             br_errors = (if length es > 0 then Some es else None)\<rparr>"
  have f1: "br_created resp = cs" by (simp add: resp_def)
  have rep: "reported resp = es"
    by (cases es) (simp_all add: reported_def resp_def)
  have res: "bulkCreateAvailability d u ids spaceId (Some (map Some xs))
       = (Inr resp, d\<lparr>availabilities := availabilities d @ cs\<rparr>)"
    using assms(1-3) by (simp add: bulkCreateAvailability_def Let_def l c e s resp_def)
  show ?thesis
  proof (intro exI conjI)
    show "bulkCreateAvailability d u ids spaceId (Some (map Some xs))
       = (Inr resp, d\<lparr>availabilities := availabilities d @ br_created resp\<rparr>)"
      unfolding f1 by (rule res)
    show "explained spaceId ids ?existing [] 0 xs (br_created resp) (reported resp)"
      unfolding f1 rep by (rule x)
    show "br_errors resp = (if reported resp = [] then None else Some (reported resp))"
      unfolding rep by (simp add: resp_def)
    show "br_created_count resp = length (br_created resp)" by (simp add: resp_def)
    show "br_failed_count resp = length (reported resp)"
      unfolding rep by (simp add: resp_def)
    show "br_created_count resp + br_failed_count resp = length xs"
      using explained_length [OF x] by (simp add: resp_def)
  qed
qed

lemma demo_batch_result:
  "map_sum id (\<lambda>r. (map (\<lambda>a. (aid a, day_of_week a, available_from a, available_to a))
                       (br_created r),
                    br_created_count r, br_failed_count r,
                    map (\<lambda>e. (be_index e, be_error e,
                               map_option aid (be_conflicting_schedule e))) (reported r)))
     (fst (bulkCreateAvailability demo_db demo_admin demo_ids 7 (Some (map Some demo_batch))))
   = Inr ([(101, 1, ''12:00'', ''14:00''), (107, 2, ''09:00'', ''10:00'')], 2, 6,
          [(0, missing_message, None), (2, batch_conflict_message, None),
           (3, existing_conflict_message, Some 21), (4, range_message, None),
           (5, Message_of ValidationError, None), (6, Message_of TypeError, None)])"
  by code_simp

lemma demo_batch_plain: "\<forall>s \<in> set demo_batch. plain_entry s"
  by code_simp

theorem bulkCreateAvailability_partial_success_witness:
  "\<exists>resp. bulkCreateAvailability demo_db demo_admin demo_ids 7 (Some (map Some demo_batch))
            = (Inr resp, demo_db\<lparr>availabilities := availabilities demo_db @ br_created resp\<rparr>) \<and>
          map (\<lambda>a. (aid a, day_of_week a, available_from a, available_to a)) (br_created resp)
            = [(101, 1, ''12:00'', ''14:00''), (107, 2, ''09:00'', ''10:00'')] \<and>
          map (\<lambda>e. (be_index e, be_error e, map_option aid (be_conflicting_schedule e)))
              (reported resp)
            = [(0, missing_message, None), (2, batch_conflict_message, None),
               (3, existing_conflict_message, Some 21), (4, range_message, None),
               (5, Message_of ValidationError, None), (6, Message_of TypeError, None)] \<and>
          br_created_count resp = 2 \<and> br_failed_count resp = 6"
proof -
  have n: "demo_batch \<noteq> []" by (simp add: demo_batch_def)
  from bulkCreateAvailability_partial_success [OF n demo_space_find demo_admin_manages
      demo_batch_plain, where ids = demo_ids]
  obtain resp where
    r: "bulkCreateAvailability demo_db demo_admin demo_ids 7 (Some (map Some demo_batch))
          = (Inr resp, demo_db\<lparr>availabilities := availabilities demo_db @ br_created resp\<rparr>)"
    by blast
  from demo_batch_result r show ?thesis by simp
qed

text \<open>
  Claim C8 as stated fails on its list of reasons: the second entry of this request
  conflicts with the first, and its error carries the message of a conflict inside the
  request and no conflicting window.
\<close>

theorem bulk_batch_conflict_not_identified:
  "map_sum id br_errors
     (fst (bulkCreateAvailability demo_db demo_admin demo_ids 7 (Some (map Some demo_pair))))
     = Inr (Some [\<lparr>be_index = 1, be_schedule = demo_entry 1 ''13:00'' ''15:00'',
                   be_error = batch_conflict_message, be_conflicting_schedule = None\<rparr>]) \<and>
   \<not> claimed_reason \<lparr>be_index = 1, be_schedule = demo_entry 1 ''13:00'' ''15:00'',
                      be_error = batch_conflict_message, be_conflicting_schedule = None\<rparr>"
proof -
  have "map_sum id br_errors
     (fst (bulkCreateAvailability demo_db demo_admin demo_ids 7 (Some (map Some demo_pair))))
     = Inr (Some [\<lparr>be_index = 1, be_schedule = demo_entry 1 ''13:00'' ''15:00'',
                   be_error = batch_conflict_message, be_conflicting_schedule = None\<rparr>])"
    by code_simp
  moreover have "\<not> claimed_reason \<lparr>be_index = 1, be_schedule = demo_entry 1 ''13:00'' ''15:00'',
                      be_error = batch_conflict_message, be_conflicting_schedule = None\<rparr>"
    by (simp add: claimed_reason_def batch_conflict_message_def missing_message_def range_message_def)
  ultimately show ?thesis by blast
qed

text \<open>
  Two behaviours outside the entries of the result above. When the day of week comes as
  the string \<open>1\<close>, the strict comparison with the number of a stored day is false for every
  window, so neither scan finds a conflict; the value is then cast to the number 1 and the
  window 11:00 to 13:00 is stored beside the window 09:00 to 12:00 of the same day, with
  which its times conflict.
\<close>

lemma bulk_string_day_not_scanned:
  "map_sum id (\<lambda>r. (map (\<lambda>a. (aid a, av_space_id a, day_of_week a, available_from a,
                               available_to a)) (br_created r), br_errors r))
     (fst (bulkCreateAvailability demo_db demo_admin demo_ids 7 (Some [Some demo_string_day])))
     = Inr ([(100, 7, 1, ''11:00'', ''13:00'')], None) \<and>
   demo_window \<in> set (availabilities demo_db) \<and>
   av_space_id demo_window = 7 \<and> day_of_week demo_window = 1 \<and>
   hasTimeConflict ''11:00'' ''13:00'' (available_from demo_window) (available_to demo_window)"
  by code_simp

text \<open>
  An entry that is \<open>null\<close> ends the request with the answer 500; the window created for the
  entry before it stays stored.
\<close>

lemma bulk_null_entry_aborts:
  "bulkCreateAvailability demo_db demo_admin demo_ids 7
     (Some [Some (demo_entry 1 ''12:00'' ''14:00''), None])
   = (Inl (AvError SERVER_ERROR 500 (Text ''Error bulk creating availability schedules'') None),
      demo_db\<lparr>availabilities := availabilities demo_db @
                 [entry_window 7 100 (demo_entry 1 ''12:00'' ''14:00'')]\<rparr>)"
  by code_simp

section \<open>Stored intervals\<close>

text \<open>
  Every handler of the bookings controller keeps the reservation invariant: if every stored
  booking starts before it ends, this still holds after the request, whatever its outcome.
  \<open>createBooking\<close> and \<open>updateBooking\<close> reject \<open>end \<le> start\<close>, \<open>extendBooking\<close> only moves
  the end forward, and the other handlers leave both times alone.
\<close>

lemma save_well_formed:
  assumes "well_formed d" and "start_time (stored doc) < end_time (stored doc)"
  shows "well_formed (save d now doc)"
  using assms by (auto simp: well_formed_def save_def)

lemma findById_mem: "findById bs i = Some b \<Longrightarrow> b \<in> set bs"
  by (auto simp: findById_def dest: find_SomeD)

lemma applyPromo_bookings:
  assumes "applyPromo d now tp pc = Inr (da, fp, d')"
  shows "bookings d' = bookings d"
  using assms
  by (auto simp: applyPromo_def save_promo_def Let_def split: if_splits option.splits)

lemma Booking_create_Some_iff:
  "Booking_create d b = Some d' \<longleftrightarrow>
     \<not> (duration_hours b < 0 \<or> base_price b < 0 \<or> discount_amount b < 0 \<or> total_amount b < 0
         \<or> booking_number b \<in> set (map booking_number (bookings d))) \<and>
     d' = d\<lparr>bookings := bookings d @ [b]\<rparr>"
  by (auto simp: Booking_create_def)

lemma well_formed_append:
  "well_formed (d\<lparr>bookings := bookings d1 @ [b]\<rparr>) \<longleftrightarrow>
     (\<forall>x \<in> set (bookings d1). start_time x < end_time x) \<and> start_time b < end_time b"
  by (auto simp: well_formed_def)

lemma createBooking_well_formed:
  assumes "well_formed d"
  shows "well_formed (snd (createBooking d u now newId num body))"
proof -
  have wf1: "\<forall>x \<in> set (bookings d1). start_time x < end_time x"
    if "applyPromo d now tp pc = Inr (da, fp, d1)" for tp pc da fp d1
    using applyPromo_bookings [OF that] assms by (simp add: well_formed_def)
  show ?thesis
    unfolding createBooking_def
    apply (simp add: assms Let_def Booking_create_Some_iff well_formed_append
          split: option.split js_date.split sum.split prod.split jsnum.split)
    apply (intro allI impI conjI)
    apply (simp_all add: wf1 assms well_formed_def)
    done
qed


lemma stored_well_formed:
  assumes "well_formed d" and "findById (bookings d) i = Some b"
  shows "start_time b < end_time b"
  using assms findById_mem [OF assms(2)] by (simp add: well_formed_def)

lemma cancelBooking_well_formed:
  assumes "well_formed d"
  shows "well_formed (snd (cancelBooking d u now i reason))"
proof (cases "findById (bookings d) i")
  case None
  then show ?thesis by (simp add: cancelBooking_def assms)
next
  case (Some b)
  note lt = stored_well_formed [OF assms Some]
  show ?thesis
    by (simp add: cancelBooking_def Some Let_def assms hydrate_def lt save_well_formed)
qed

lemma checkIn_well_formed:
  assumes "well_formed d"
  shows "well_formed (snd (checkIn d u now i vc))"
proof (cases "findById (bookings d) i")
  case None
  then show ?thesis by (simp add: checkIn_def assms)
next
  case (Some b)
  note lt = stored_well_formed [OF assms Some]
  show ?thesis
    by (simp add: checkIn_def Some Let_def assms hydrate_def lt save_well_formed)
qed

lemma checkOut_well_formed:
  assumes "well_formed d"
  shows "well_formed (snd (checkOut d u now i))"
proof (cases "findById (bookings d) i")
  case None
  then show ?thesis by (simp add: checkOut_def assms)
next
  case (Some b)
  note lt = stored_well_formed [OF assms Some]
  show ?thesis
    by (simp add: checkOut_def Some Let_def assms hydrate_def lt save_well_formed)
qed

lemma extendBooking_well_formed:
  assumes "well_formed d"
  shows "well_formed (snd (extendBooking d u now i ne))"
proof (cases "findById (bookings d) i")
  case None
  then show ?thesis by (simp add: extendBooking_def assms split: option.split)
next
  case (Some b)
  note lt = stored_well_formed [OF assms Some]
  have "start_time b < e" if "\<not> e \<le> end_time b" for e
    using lt that by simp
  then show ?thesis
    by (simp add: extendBooking_def Some Let_def assms hydrate_def save_well_formed
          split: option.split js_date.split)
qed

lemma updateVehicle_times:
  assumes "updateVehicle d u v doc = Inr doc'"
  shows "start_time (stored doc') = start_time (stored doc) \<and>
         end_time (stored doc') = end_time (stored doc)"
  using assms by (auto simp: updateVehicle_def split: option.splits if_splits)

lemma updateBooking_well_formed:
  assumes "well_formed d"
  shows "well_formed (snd (updateBooking d u now i body))"
proof (cases "findById (bookings d) i")
  case None
  then show ?thesis by (simp add: updateBooking_def assms)
next
  case (Some b)
  note lt = stored_well_formed [OF assms Some]
  show ?thesis
  proof (cases "updateVehicle d u (bb_vehicle_id body) (hydrate b)")
    case (Inl e)
    then show ?thesis by (simp add: updateBooking_def Some assms)
  next
    case (Inr doc)
    from updateVehicle_times [OF Inr] lt
    have "start_time (stored doc) < end_time (stored doc)" by (simp add: hydrate_def)
    then show ?thesis
      by (simp add: updateBooking_def Some Inr Let_def assms save_well_formed
            split: option.split js_date.split prod.split)
  qed
qed

end
